theory Spec2Isabelle
  imports Main "HOL-Library.Word"
begin

section \<open>The abstract syntax tree (flo_lang/ast/nodes.py)\<close>

text \<open>
  The node classes of \<^verbatim>\<open>nodes.py\<close>, one constructor per dataclass. The evaluator never
  reads a type annotation, a return type or a source position, so those fields are left
  out; a \<^verbatim>\<open>Param\<close> is therefore just its name. The evaluator dispatches on the run-time
  class of whatever node it is handed, statement or expression alike, so all of them
  live in the one type \<open>node\<close>. A float is carried as its 64-bit IEEE pattern.
\<close>

datatype BinaryOp =
  ADD | SUB | MUL | DIV | MOD | EQ | NEQ | LT | GT | LTE | GTE | AND | OR
  | PIPELINE_FORWARD | PIPELINE_BACKWARD

datatype UnaryOp = NOT | NEG | POS

text \<open>The value of a \<^verbatim>\<open>LiteralPattern\<close>: \<^verbatim>\<open>Union[int, float, str, bool, None]\<close>.\<close>

datatype literal = LitInt int | LitFloat "64 word" | LitStr string | LitBool bool | LitNone

datatype pattern =
    LiteralPattern literal
  | VarPattern string
  | WildcardPattern
  | OptionPattern string "pattern option"
  | ResultPattern string "pattern option"
  | ListPattern "pattern list"

datatype node =
    Module "node list"
  | Import string string "string option" "string option"
  | CapabilityRequest string string
  | ConstDecl string node
  | LetDecl string node
  | VarDecl string node
  | FnDecl string "string list" "node list"
  | ReturnStmt "node option"
  | ExprStmt node
  | IntLiteral int
  | FloatLiteral "64 word"
  | StringLiteral string
  | BoolLiteral bool
  | NilLiteral
  | VarRef string
  | BinaryExpr node BinaryOp node
  | UnaryExpr UnaryOp node
  | Assignment string node
  | Call node "node list"
  | Index node node
  | Attr node string
  | OptionalChain node string
  | ListExpr "node list"
  | MapExpr "(string \<times> node) list"
  | IfExpr node "node list" "(node \<times> node list) list" "node list option"
  | MatchExpr node "(pattern \<times> node) list"
  | ForExpr string node "node list"
  | WhileExpr node "node list"
  | AttemptExpr "node list" "(string \<times> node list) option" "node list option"
  | FnExpr "string list" "node list"
  | StrandExpr "node list"
  | AwaitExpr node
  | OptionExpr string "node option"
  | ResultExpr string node

section \<open>Run-time values and exceptions\<close>

text \<open>
  An \<^verbatim>\<open>Environment\<close> object is known by its identity and its parent, which
  \<^verbatim>\<open>__init__\<close> sets once and nothing changes afterwards. Its two dictionaries are
  mutable and shared by every holder of the reference, so they live in the store, under
  the identity.
\<close>

datatype environment = Environment (env_id: nat) (parent: "environment option")

text \<open>
  The Python objects an evaluation holds. \<open>FloFunction\<close> carries its object identity
  and its four attributes; \<open>Builtin\<close> is a host callable installed by
  \<^verbatim>\<open>setup_builtins\<close>, known by the name it was installed under; \<open>FloStrand\<close> is the
  handle of a strand and \<open>Task\<close> the \<^verbatim>\<open>asyncio.Task\<close> in its \<^verbatim>\<open>task\<close> attribute, both
  known by the number of the strand; \<open>VExc\<close> is an exception object bound by a rescue
  clause. \<open>ReturnValue\<close> subclasses \<^verbatim>\<open>Exception\<close>, as do the run-time errors.

  Attribute access and the builtins can hand the evaluator any other Python object: a
  bytes string, a bound method, a coroutine. \<open>HostObject\<close> is such an object: its
  identity, and what the evaluator itself ever asks of an object, namely its truth value
  and whether it is callable, a coroutine function, or a coroutine or future.
\<close>

datatype host_kind = Plain | Callable | CoroutineFunction | Awaitable

datatype val =
    VInt int
  | VFloat "64 word"
  | VBool bool
  | VStr string
  | VNone
  | VList "val list"
  | VDict "(val \<times> val) list"
  | VTuple "val list"
  | VRange int int
  | FloFunction nat string "string list" "node list" environment
  | Builtin string
  | FloStrand nat
  | Task nat
  | VExc exn
  | HostObject nat bool host_kind
and exn =
    ReturnValue val
  | RuntimeError string
  | FloRuntimeError string
  | HostError string string

section \<open>Environments (flo_lang/interpreter/environment.py)\<close>

record frame =
  bindings :: "string \<rightharpoonup> val"
  mutable :: "string \<rightharpoonup> bool"

text \<open>
  A strand: the body and the environment of its coroutine \<^verbatim>\<open>strand_body\<close>, and the
  result or exception of its task once it is done.
\<close>

record strand =
  strand_body :: "node list"
  strand_env :: environment
  strand_outcome :: "(exn + val) option"

text \<open>
  The store: the dictionaries of the environments, the next fresh identity, what has
  been printed, the strands, the event loop's queue of tasks created and not yet
  started, and the strand now running (none when the main task runs).
\<close>

record state =
  frames :: "nat \<Rightarrow> frame"
  next_id :: nat
  stdout :: "val list list"
  tasks :: "nat \<rightharpoonup> strand"
  ready :: "nat list"
  current :: "nat option"

definition quoted :: "string \<Rightarrow> string" where
  "quoted name = CHR 0x27 # name @ [CHR 0x27]"

definition DuplicateDefinition :: "string \<Rightarrow> exn" where
  "DuplicateDefinition name =
     RuntimeError (''Variable '' @ quoted name @ '' already defined in this scope'')"

definition UndefinedVariable :: "string \<Rightarrow> exn" where
  "UndefinedVariable name = RuntimeError (''Undefined variable '' @ quoted name)"

definition ImmutableReassignment :: "string \<Rightarrow> exn" where
  "ImmutableReassignment name =
     RuntimeError (''Cannot reassign immutable variable '' @ quoted name)"

text \<open>
  \<^verbatim>\<open>Environment(parent=p)\<close>: a fresh object with two empty dictionaries. The methods
  \<^verbatim>\<open>define\<close>, \<^verbatim>\<open>get\<close>, \<^verbatim>\<open>set\<close> and \<^verbatim>\<open>has\<close> follow as \<open>define_var\<close>, \<open>get_var\<close>, \<open>set_var\<close>
  and \<open>has_var\<close> (the plain names are taken in Isabelle).
\<close>

definition new_environment :: "environment option \<Rightarrow> state \<Rightarrow> environment \<times> state" where
  "new_environment p s =
     (Environment (next_id s) p,
      s\<lparr>frames := (frames s)(next_id s := \<lparr>bindings = Map.empty, mutable = Map.empty\<rparr>),
        next_id := Suc (next_id s)\<rparr>)"

definition define_var :: "environment \<Rightarrow> string \<Rightarrow> val \<Rightarrow> bool \<Rightarrow> state \<Rightarrow> exn + state" where
  "define_var self name v mut s =
     (let f = frames s (env_id self) in
      if bindings f name \<noteq> None then Inl (DuplicateDefinition name)
      else Inr (s\<lparr>frames := (frames s)(env_id self :=
                  f\<lparr>bindings := (bindings f)(name \<mapsto> v),
                    mutable := (mutable f)(name \<mapsto> mut)\<rparr>)\<rparr>))"

fun get_var :: "environment \<Rightarrow> string \<Rightarrow> state \<Rightarrow> exn + val" where
  "get_var (Environment i p) name s =
     (case bindings (frames s i) name of
        Some v \<Rightarrow> Inr v
      | None \<Rightarrow>
          (case p of
             Some pe \<Rightarrow> get_var pe name s
           | None \<Rightarrow> Inl (UndefinedVariable name)))"

text \<open>
  \<^verbatim>\<open>set\<close>. The test \<^verbatim>\<open>self.mutable[name]\<close> is a dictionary read: a name with no entry
  there raises \<^verbatim>\<open>KeyError\<close>.
\<close>

fun set_var :: "environment \<Rightarrow> string \<Rightarrow> val \<Rightarrow> state \<Rightarrow> exn + state" where
  "set_var (Environment i p) name v s =
     (let f = frames s i in
      if bindings f name \<noteq> None then
        (case mutable f name of
           None \<Rightarrow> Inl (HostError ''KeyError'' name)
         | Some m \<Rightarrow>
             if \<not> m then Inl (ImmutableReassignment name)
             else Inr (s\<lparr>frames := (frames s)(i := f\<lparr>bindings := (bindings f)(name \<mapsto> v)\<rparr>)\<rparr>))
      else
        (case p of
           Some pe \<Rightarrow> set_var pe name v s
         | None \<Rightarrow> Inl (UndefinedVariable name)))"

fun has_var :: "environment \<Rightarrow> string \<Rightarrow> state \<Rightarrow> bool" where
  "has_var (Environment i p) name s =
     (if bindings (frames s i) name \<noteq> None then True
      else (case p of Some pe \<Rightarrow> has_var pe name s | None \<Rightarrow> False))"

section \<open>The host language\<close>

text \<open>
  The evaluator hands arithmetic, comparison, indexing, attribute access, iteration, the
  builtins and the formatting of a value in a message to Python itself. None of that is
  code of this repository, so it is a parameter of the model: every theorem below holds
  for whatever these operations do.
\<close>

record host =
  py_binop :: "BinaryOp \<Rightarrow> val \<Rightarrow> val \<Rightarrow> exn + val"
  py_unop :: "UnaryOp \<Rightarrow> val \<Rightarrow> exn + val"
  py_getitem :: "val \<Rightarrow> val \<Rightarrow> exn + val"
  py_getattr :: "val \<Rightarrow> string \<Rightarrow> exn + val"
  py_iter :: "val \<Rightarrow> exn + val list"
  py_call :: "val \<Rightarrow> val list \<Rightarrow> exn + val"
  py_str :: "val \<Rightarrow> string"

text \<open>
  Python's truth test, which is what \<^verbatim>\<open>if condition:\<close>, \<^verbatim>\<open>if not condition:\<close>,
  \<^verbatim>\<open>not expr\<close>, \<^verbatim>\<open>left and right\<close> and \<^verbatim>\<open>left or right\<close> apply to a value: numbers are
  true unless zero (a float has two zeros), sized objects unless empty, \<^verbatim>\<open>None\<close> is
  false, and an object defining neither \<^verbatim>\<open>__bool__\<close> nor \<^verbatim>\<open>__len__\<close> is true. For any
  other object it is what Python's test of that object gives.
\<close>

fun py_bool :: "val \<Rightarrow> bool" where
  "py_bool (VInt i) = (i \<noteq> 0)"
| "py_bool (VFloat w) = (w \<noteq> 0 \<and> w \<noteq> 0x8000000000000000)"
| "py_bool (VBool b) = b"
| "py_bool (VStr x) = (x \<noteq> [])"
| "py_bool VNone = False"
| "py_bool (VList xs) = (xs \<noteq> [])"
| "py_bool (VDict kvs) = (kvs \<noteq> [])"
| "py_bool (VTuple xs) = (xs \<noteq> [])"
| "py_bool (VRange a b) = (a < b)"
| "py_bool (FloFunction i name params body closure) = True"
| "py_bool (Builtin name) = True"
| "py_bool (FloStrand i) = True"
| "py_bool (Task i) = True"
| "py_bool (VExc e) = True"
| "py_bool (HostObject k truth kind) = truth"

text \<open>\<^verbatim>\<open>left and right\<close> and \<^verbatim>\<open>left or right\<close> on two values already computed.\<close>

definition py_and :: "val \<Rightarrow> val \<Rightarrow> val" where
  "py_and left right = (if py_bool left then right else left)"

definition py_or :: "val \<Rightarrow> val \<Rightarrow> val" where
  "py_or left right = (if py_bool left then left else right)"

text \<open>
  \<^verbatim>\<open>callable(x)\<close>: the builtins are Python functions; class \<^verbatim>\<open>FloFunction\<close> defines no
  \<^verbatim>\<open>__call__\<close>. \<^verbatim>\<open>asyncio.iscoroutinefunction(x)\<close>, and
  \<^verbatim>\<open>asyncio.iscoroutine(x) or asyncio.isfuture(x)\<close>: a task is a future.
\<close>

fun callable :: "val \<Rightarrow> bool" where
  "callable (Builtin name) = True"
| "callable (HostObject k truth kind) = (kind = Callable \<or> kind = CoroutineFunction)"
| "callable v = False"

fun iscoroutinefunction :: "val \<Rightarrow> bool" where
  "iscoroutinefunction (HostObject k truth kind) = (kind = CoroutineFunction)"
| "iscoroutinefunction v = False"

fun is_strand :: "val \<Rightarrow> bool" where
  "is_strand (FloStrand i) = True"
| "is_strand v = False"

fun iscoroutine_or_future :: "val \<Rightarrow> bool" where
  "iscoroutine_or_future (Task i) = True"
| "iscoroutine_or_future (HostObject k truth kind) = (kind = Awaitable)"
| "iscoroutine_or_future v = False"

fun literal_val :: "literal \<Rightarrow> val" where
  "literal_val (LitInt i) = VInt i"
| "literal_val (LitFloat w) = VFloat w"
| "literal_val (LitStr x) = VStr x"
| "literal_val (LitBool b) = VBool b"
| "literal_val LitNone = VNone"

text \<open>\<^verbatim>\<open>result[key] = value\<close> on an insertion-ordered dictionary.\<close>

fun dict_setitem :: "(val \<times> val) list \<Rightarrow> val \<Rightarrow> val \<Rightarrow> (val \<times> val) list" where
  "dict_setitem [] k v = [(k, v)]"
| "dict_setitem ((k', v') # kvs) k v =
     (if k' = k then (k, v) # kvs else (k', v') # dict_setitem kvs k v)"

text \<open>
  \<^verbatim>\<open>obj.get(name)\<close> on a dictionary, \<^verbatim>\<open>name\<close> a string: \<^verbatim>\<open>None\<close> for a missing key.
\<close>

definition dict_get :: "(val \<times> val) list \<Rightarrow> string \<Rightarrow> val" where
  "dict_get kvs k = (case map_of kvs (VStr k) of Some v \<Rightarrow> v | None \<Rightarrow> VNone)"

text \<open>A length, as an f-string prints it.\<close>

fun show_nat :: "nat \<Rightarrow> string" where
  "show_nat n =
     (if n < 10 then [char_of (48 + n)]
      else show_nat (n div 10) @ [char_of (48 + n mod 10)])"

section \<open>The evaluator (flo_lang/interpreter/evaluator.py)\<close>

text \<open>
  An evaluation returns a value or is cut short. \<open>Raise\<close> is a Python exception on its
  way up, \<^verbatim>\<open>ReturnValue\<close> included. Function calls and \<^verbatim>\<open>while\<close> loops need not end,
  so the model runs on fuel, and \<open>OutOfFuel\<close> says it ran out. \<open>Suspended\<close> says that the
  evaluation stopped where this model ends: a strand awaits a task that is not done, so
  that the event loop would go on with other tasks and come back to the middle of this
  one, or the evaluation awaits a coroutine or future that is the host's own. Python's
  limit on the depth of recursion is not modelled either. Neither of the last two is an
  exception: no \<^verbatim>\<open>try\<close> statement sees them.
\<close>

datatype signal = Raise exn | OutOfFuel | Suspended val

datatype 'a result = Normal 'a | Stop signal

subsection \<open>Patterns\<close>

text \<open>
  \<^verbatim>\<open>match_pattern\<close>. The chain of \<^verbatim>\<open>isinstance\<close> tests has no branch for
  \<^verbatim>\<open>ListPattern\<close>, which falls to the final \<^verbatim>\<open>else\<close>. An \<^verbatim>\<open>OptionPattern\<close> whose variant
  is neither string leaves the function without a \<^verbatim>\<open>return\<close>, that is with \<^verbatim>\<open>None\<close>.
\<close>

fun match_pattern ::
  "host \<Rightarrow> pattern \<Rightarrow> val \<Rightarrow> environment \<Rightarrow> state \<Rightarrow> val result \<times> state" where
  "match_pattern H (LiteralPattern l) v env s =
     (case py_binop H EQ (literal_val l) v of
        Inl x \<Rightarrow> (Stop (Raise x), s)
      | Inr b \<Rightarrow> (Normal b, s))"
| "match_pattern H (VarPattern name) v env s =
     (case define_var env name v False s of
        Inl x \<Rightarrow> (Stop (Raise x), s)
      | Inr s' \<Rightarrow> (Normal (VBool True), s'))"
| "match_pattern H WildcardPattern v env s = (Normal (VBool True), s)"
| "match_pattern H (OptionPattern variant inner) v env s =
     (if variant = ''None'' then (Normal (VBool (v = VNone)), s)
      else if variant = ''Some'' then (Normal (VBool (v \<noteq> VNone)), s)
      else (Normal VNone, s))"
| "match_pattern H (ResultPattern variant inner) v env s = (Normal (VBool True), s)"
| "match_pattern H (ListPattern patterns) v env s = (Normal (VBool False), s)"

subsection \<open>Evaluation\<close>

text \<open>
  \<^verbatim>\<open>Evaluator.eval\<close> calls itself through its methods, and neither a function call nor
  a \<^verbatim>\<open>while\<close> loop need end, so the recursion runs on fuel: \<open>eval H (Suc n)\<close> is one
  pass of the dispatch, \<open>eval_node\<close>, in which every \<^verbatim>\<open>await self.eval(...)\<close> is
  \<open>eval H n\<close>, written \<open>ev\<close>, and a \<^verbatim>\<open>while\<close> loop makes at most \<open>n\<close> rounds. The loops
  over the lists of a node are recursive functions on those lists: \<open>eval_block ev\<close> is
  \<^verbatim>\<open>for stmt in block: result = await self.eval(stmt, env)\<close> from a given \<^verbatim>\<open>result\<close>,
  \<open>eval_list\<close> a list comprehension over nodes, \<open>eval_entries\<close> the loop of
  \<^verbatim>\<open>eval_map_expr\<close>, \<open>eval_elifs\<close> the elif loop and the else block of \<^verbatim>\<open>eval_if_expr\<close>,
  \<open>eval_arms\<close> the loop of \<^verbatim>\<open>eval_match_expr\<close>, \<open>eval_for\<close> and \<open>eval_while\<close> the loops
  of \<^verbatim>\<open>eval_for_expr\<close> and \<^verbatim>\<open>eval_while_expr\<close>.
\<close>

type_synonym evaluator = "node \<Rightarrow> environment \<Rightarrow> state \<Rightarrow> val result \<times> state"

fun eval_block :: "evaluator \<Rightarrow> node list \<Rightarrow> val \<Rightarrow> environment \<Rightarrow> state \<Rightarrow> val result \<times> state" where
  "eval_block ev [] result env s = (Normal result, s)"
| "eval_block ev (stmt # rest) result env s =
     (case ev stmt env s of
        (Stop a, s1) \<Rightarrow> (Stop a, s1)
      | (Normal v, s1) \<Rightarrow> eval_block ev rest v env s1)"

fun eval_list :: "evaluator \<Rightarrow> node list \<Rightarrow> environment \<Rightarrow> state \<Rightarrow> val list result \<times> state" where
  "eval_list ev [] env s = (Normal [], s)"
| "eval_list ev (e # rest) env s =
     (case ev e env s of
        (Stop a, s1) \<Rightarrow> (Stop a, s1)
      | (Normal v, s1) \<Rightarrow>
          (case eval_list ev rest env s1 of
             (Stop a, s2) \<Rightarrow> (Stop a, s2)
           | (Normal vs, s2) \<Rightarrow> (Normal (v # vs), s2)))"

fun eval_entries ::
  "evaluator \<Rightarrow> (string \<times> node) list \<Rightarrow> (val \<times> val) list \<Rightarrow> environment \<Rightarrow> state
     \<Rightarrow> val result \<times> state" where
  "eval_entries ev [] result env s = (Normal (VDict result), s)"
| "eval_entries ev ((key, value_expr) # rest) result env s =
     (case ev value_expr env s of
        (Stop a, s1) \<Rightarrow> (Stop a, s1)
      | (Normal v, s1) \<Rightarrow> eval_entries ev rest (dict_setitem result (VStr key) v) env s1)"

fun eval_elifs ::
  "evaluator \<Rightarrow> (node \<times> node list) list \<Rightarrow> node list option \<Rightarrow> environment \<Rightarrow> state
     \<Rightarrow> val result \<times> state" where
  "eval_elifs ev [] else_block env s =
     (case else_block of
        None \<Rightarrow> (Normal VNone, s)
      | Some block \<Rightarrow>
          (if block \<noteq> [] then eval_block ev block VNone env s else (Normal VNone, s)))"
| "eval_elifs ev ((condition, block) # rest) else_block env s =
     (case ev condition env s of
        (Stop a, s1) \<Rightarrow> (Stop a, s1)
      | (Normal c, s1) \<Rightarrow>
          (if py_bool c then eval_block ev block VNone env s1
           else eval_elifs ev rest else_block env s1))"

fun eval_arms ::
  "host \<Rightarrow> evaluator \<Rightarrow> (pattern \<times> node) list \<Rightarrow> val \<Rightarrow> environment \<Rightarrow> state
     \<Rightarrow> val result \<times> state" where
  "eval_arms H ev [] v env s =
     (Stop (Raise (FloRuntimeError (''No match for value: '' @ py_str H v))), s)"
| "eval_arms H ev ((pat, e) # rest) v env s =
     (case match_pattern H pat v env s of
        (Stop a, s1) \<Rightarrow> (Stop a, s1)
      | (Normal m, s1) \<Rightarrow>
          (if py_bool m then ev e env s1 else eval_arms H ev rest v env s1))"

fun eval_for ::
  "evaluator \<Rightarrow> string \<Rightarrow> val list \<Rightarrow> node list \<Rightarrow> val \<Rightarrow> environment \<Rightarrow> state
     \<Rightarrow> val result \<times> state" where
  "eval_for ev var [] body result env s = (Normal result, s)"
| "eval_for ev var (item # rest) body result env s =
     (let (loop_env, s1) = new_environment (Some env) s
      in case define_var loop_env var item False s1 of
           Inl x \<Rightarrow> (Stop (Raise x), s1)
         | Inr s2 \<Rightarrow>
             (case eval_block ev body result loop_env s2 of
                (Stop a, s3) \<Rightarrow> (Stop a, s3)
              | (Normal v, s3) \<Rightarrow> eval_for ev var rest body v env s3))"

fun eval_while ::
  "evaluator \<Rightarrow> nat \<Rightarrow> node \<Rightarrow> node list \<Rightarrow> val \<Rightarrow> environment \<Rightarrow> state
     \<Rightarrow> val result \<times> state" where
  "eval_while ev 0 condition body result env s = (Stop OutOfFuel, s)"
| "eval_while ev (Suc k) condition body result env s =
     (case ev condition env s of
        (Stop a, s1) \<Rightarrow> (Stop a, s1)
      | (Normal c, s1) \<Rightarrow>
          (if \<not> py_bool c then (Normal result, s1)
           else
             (case eval_block ev body result env s1 of
                (Stop a, s2) \<Rightarrow> (Stop a, s2)
              | (Normal v, s2) \<Rightarrow> eval_while ev k condition body v env s2)))"

text \<open>
  \<^verbatim>\<open>call_function\<close>. The parameters are bound one \<^verbatim>\<open>define\<close> at a time, so a repeated
  parameter name raises from the second one. A builtin is called with the arguments
  and returns or raises; \<^verbatim>\<open>print\<close> writes them. Awaiting the call of a coroutine
  function of the host is where the model ends.
\<close>

fun define_all :: "environment \<Rightarrow> (string \<times> val) list \<Rightarrow> state \<Rightarrow> exn option \<times> state" where
  "define_all env [] s = (None, s)"
| "define_all env ((name, v) # rest) s =
     (case define_var env name v False s of
        Inl x \<Rightarrow> (Some x, s)
      | Inr s' \<Rightarrow> define_all env rest s')"

definition arity_message :: "string \<Rightarrow> nat \<Rightarrow> nat \<Rightarrow> string" where
  "arity_message name expected got =
     ''Function '' @ name @ '' expects '' @ show_nat expected @ '' arguments, got ''
       @ show_nat got"

definition call_function ::
  "host \<Rightarrow> evaluator \<Rightarrow> val \<Rightarrow> val list \<Rightarrow> environment \<Rightarrow> state \<Rightarrow> val result \<times> state" where
  "call_function H ev func args env s =
     (case func of
        FloFunction i name params body closure \<Rightarrow>
          (let (func_env, s1) = new_environment (Some closure) s
           in if length args \<noteq> length params then
                (Stop (Raise (FloRuntimeError
                   (arity_message name (length params) (length args)))), s1)
              else
                (case define_all func_env (zip params args) s1 of
                   (Some x, s2) \<Rightarrow> (Stop (Raise x), s2)
                 | (None, s2) \<Rightarrow>
                     (case eval_block ev body VNone func_env s2 of
                        (Stop (Raise (ReturnValue v)), s3) \<Rightarrow> (Normal v, s3)
                      | (r, s3) \<Rightarrow> (r, s3))))
      | _ \<Rightarrow>
          (if callable func then
             (if iscoroutinefunction func then (Stop (Suspended func), s)
              else if func = Builtin ''print'' then
                (Normal VNone, s\<lparr>stdout := stdout s @ [args]\<rparr>)
              else
                (case py_call H func args of
                   Inl x \<Rightarrow> (Stop (Raise x), s)
                 | Inr v \<Rightarrow> (Normal v, s)))
           else (Stop (Raise (FloRuntimeError (''Not a function: '' @ py_str H func))), s)))"

text \<open>
  \<^verbatim>\<open>eval_attempt_expr\<close> is a \<^verbatim>\<open>try\<close> statement with an \<^verbatim>\<open>except Exception\<close> clause and a
  \<^verbatim>\<open>finally\<close> clause. \<open>try_except\<close> gives an exception leaving the body to the handler,
  \<^verbatim>\<open>ReturnValue\<close> like any other, since it subclasses \<^verbatim>\<open>Exception\<close>. \<open>try_finally\<close> runs
  the final suite once the body or the handler has left, by a \<^verbatim>\<open>return\<close> or by an
  exception; when the suite ends normally, what was pending goes on, and an exception
  leaving the suite takes its place.
\<close>

definition try_except ::
  "(state \<Rightarrow> val result \<times> state) \<Rightarrow> (exn \<Rightarrow> state \<Rightarrow> val result \<times> state)
     \<Rightarrow> state \<Rightarrow> val result \<times> state" where
  "try_except body handler s =
     (case body s of
        (Stop (Raise e), s1) \<Rightarrow> handler e s1
      | (r, s1) \<Rightarrow> (r, s1))"

definition try_finally ::
  "(state \<Rightarrow> val result \<times> state) \<Rightarrow> (state \<Rightarrow> unit result \<times> state)
     \<Rightarrow> state \<Rightarrow> val result \<times> state" where
  "try_finally body final s =
     (case body s of
        (Stop OutOfFuel, s1) \<Rightarrow> (Stop OutOfFuel, s1)
      | (Stop (Suspended i), s1) \<Rightarrow> (Stop (Suspended i), s1)
      | (r, s1) \<Rightarrow>
          (case final s1 of
             (Normal u, s2) \<Rightarrow> (r, s2)
           | (Stop a, s2) \<Rightarrow> (Stop a, s2)))"

text \<open>\<^verbatim>\<open>for stmt in block: await self.eval(stmt, env)\<close>, the results dropped.\<close>

definition exec_block :: "evaluator \<Rightarrow> node list \<Rightarrow> environment \<Rightarrow> state \<Rightarrow> unit result \<times> state" where
  "exec_block ev block env s =
     (case eval_block ev block VNone env s of
        (Normal v, s1) \<Rightarrow> (Normal (), s1)
      | (Stop a, s1) \<Rightarrow> (Stop a, s1))"

definition eval_attempt_expr ::
  "evaluator \<Rightarrow> node list \<Rightarrow> (string \<times> node list) option \<Rightarrow> node list option
     \<Rightarrow> environment \<Rightarrow> state \<Rightarrow> val result \<times> state" where
  "eval_attempt_expr ev body rescue finally_clause env =
     try_finally
       (try_except
          (eval_block ev body VNone env)
          (\<lambda>e s.
             case rescue of
               Some (var, block) \<Rightarrow>
                 (let (rescue_env, s1) = new_environment (Some env) s
                  in case define_var rescue_env var (VExc e) False s1 of
                       Inl x \<Rightarrow> (Stop (Raise x), s1)
                     | Inr s2 \<Rightarrow> eval_block ev block VNone rescue_env s2)
             | None \<Rightarrow> (Stop (Raise e), s)))
       (\<lambda>s.
          case finally_clause of
            Some block \<Rightarrow> exec_block ev block env s
          | None \<Rightarrow> (Normal (), s))"

subsection \<open>Strands and the event loop\<close>

text \<open>
  \<^verbatim>\<open>eval_strand_expr\<close> makes the environment of the strand and hands the coroutine
  \<^verbatim>\<open>strand_body\<close> to \<^verbatim>\<open>asyncio.create_task\<close>, which puts the new task at the end of the
  event loop's queue; nothing of it runs yet.
\<close>

definition eval_strand_expr :: "node list \<Rightarrow> environment \<Rightarrow> state \<Rightarrow> val result \<times> state" where
  "eval_strand_expr body env s =
     (let (strand_env, s1) = new_environment (Some env) s;
          i = next_id s1
      in (Normal (FloStrand i),
          s1\<lparr>tasks := (tasks s1)(i \<mapsto>
                 \<lparr>strand_body = body, strand_env = strand_env, strand_outcome = None\<rparr>),
             ready := ready s1 @ [i],
             next_id := Suc i\<rparr>))"

text \<open>
  The event loop takes task \<open>i\<close> from its queue and runs \<^verbatim>\<open>strand_body\<close>: the statements
  of the strand in its environment, the value of the last one or of a \<^verbatim>\<open>return\<close> being
  the task's result and any other exception the task's exception.
\<close>

definition run_strand :: "evaluator \<Rightarrow> nat \<Rightarrow> state \<Rightarrow> unit result \<times> state" where
  "run_strand ev i s =
     (case tasks s i of
        None \<Rightarrow> (Normal (), s\<lparr>ready := remove1 i (ready s)\<rparr>)
      | Some t \<Rightarrow>
          (case eval_block ev (strand_body t) VNone (strand_env t)
                  (s\<lparr>ready := remove1 i (ready s), current := Some i\<rparr>) of
             (Normal v, s1) \<Rightarrow>
               (Normal (), s1\<lparr>tasks := (tasks s1)(i \<mapsto> t\<lparr>strand_outcome := Some (Inr v)\<rparr>),
                              current := current s\<rparr>)
           | (Stop (Raise (ReturnValue v)), s1) \<Rightarrow>
               (Normal (), s1\<lparr>tasks := (tasks s1)(i \<mapsto> t\<lparr>strand_outcome := Some (Inr v)\<rparr>),
                              current := current s\<rparr>)
           | (Stop (Raise x), s1) \<Rightarrow>
               (Normal (), s1\<lparr>tasks := (tasks s1)(i \<mapsto> t\<lparr>strand_outcome := Some (Inl x)\<rparr>),
                              current := current s\<rparr>)
           | (Stop a, s1) \<Rightarrow> (Stop a, s1)))"

fun run_tasks :: "evaluator \<Rightarrow> nat list \<Rightarrow> state \<Rightarrow> unit result \<times> state" where
  "run_tasks ev [] s = (Normal (), s)"
| "run_tasks ev (i # rest) s =
     (case run_strand ev i s of
        (Stop a, s1) \<Rightarrow> (Stop a, s1)
      | (Normal u, s1) \<Rightarrow> run_tasks ev rest s1)"

text \<open>
  \<^verbatim>\<open>await\<close> on task \<open>i\<close>. A task that is done gives its result or raises its exception at
  once. Otherwise the awaiting task is suspended and the event loop runs the tasks of
  its queue in order. When task \<open>i\<close> ends, the wake-up of the awaiting task joins the
  queue behind the tasks that are in it at that moment, so those run too and the tasks
  they create do not; then the awaiting task goes on with the result of task \<open>i\<close>. This
  is followed from the main task. Inside a strand the loop would come back to the
  middle of the strand after other tasks, the main one among them, have gone on, and
  there the model ends; likewise for a task that is neither done nor in the queue.
\<close>

definition task_result :: "nat \<Rightarrow> state \<Rightarrow> val result \<times> state" where
  "task_result i s =
     (case tasks s i of
        None \<Rightarrow> (Stop (Suspended (Task i)), s)
      | Some t \<Rightarrow>
          (case strand_outcome t of
             Some (Inr v) \<Rightarrow> (Normal v, s)
           | Some (Inl x) \<Rightarrow> (Stop (Raise x), s)
           | None \<Rightarrow> (Stop (Suspended (Task i)), s)))"

definition task_done :: "nat \<Rightarrow> state \<Rightarrow> bool" where
  "task_done i s =
     (case tasks s i of None \<Rightarrow> False | Some t \<Rightarrow> strand_outcome t \<noteq> None)"

definition await_task :: "evaluator \<Rightarrow> nat \<Rightarrow> state \<Rightarrow> val result \<times> state" where
  "await_task ev i s =
     (if task_done i s then task_result i s
      else if current s \<noteq> None \<or> i \<notin> set (ready s) then (Stop (Suspended (Task i)), s)
      else
        (case run_tasks ev (takeWhile (\<lambda>j. j \<noteq> i) (ready s) @ [i]) s of
           (Stop a, s1) \<Rightarrow> (Stop a, s1)
         | (Normal u, s1) \<Rightarrow>
             (case run_tasks ev (ready s1) s1 of
                (Stop a, s2) \<Rightarrow> (Stop a, s2)
              | (Normal u', s2) \<Rightarrow> task_result i s2)))"

text \<open>
  \<^verbatim>\<open>eval_await_expr\<close>: a strand handle awaits its task through \<^verbatim>\<open>wait\<close>; a coroutine or
  future is awaited as it is, a task as above and one of the host's own outside the
  model; any other value is returned.
\<close>

definition await_value :: "evaluator \<Rightarrow> val \<Rightarrow> state \<Rightarrow> val result \<times> state" where
  "await_value ev v s =
     (case v of
        FloStrand i \<Rightarrow> await_task ev i s
      | Task i \<Rightarrow> await_task ev i s
      | _ \<Rightarrow>
          (if iscoroutine_or_future v then (Stop (Suspended v), s)
           else (Normal v, s)))"

definition eval_await_expr :: "evaluator \<Rightarrow> node \<Rightarrow> environment \<Rightarrow> state \<Rightarrow> val result \<times> state" where
  "eval_await_expr ev e env s =
     (case ev e env s of
        (Stop a, s1) \<Rightarrow> (Stop a, s1)
      | (Normal v, s1) \<Rightarrow> await_value ev v s1)"

text \<open>
  The one attribute of a run-time object that is followed here: \<^verbatim>\<open>task\<close> of a
  \<^verbatim>\<open>FloStrand\<close>. Every other \<^verbatim>\<open>getattr\<close> is the host's.
\<close>

fun strand_task :: "val \<Rightarrow> string \<Rightarrow> val option" where
  "strand_task (FloStrand i) name = (if name = ''task'' then Some (Task i) else None)"
| "strand_task v name = None"

text \<open>The dispatch of \<^verbatim>\<open>Evaluator.eval\<close>, each branch with the body of its method.\<close>

fun eval_node :: "host \<Rightarrow> nat \<Rightarrow> evaluator \<Rightarrow> node \<Rightarrow> environment \<Rightarrow> state \<Rightarrow> val result \<times> state" where
  \<comment> \<open>\<^verbatim>\<open>eval_module\<close>\<close>
  "eval_node H n ev (Module statements) env s = eval_block ev statements VNone env s"
  \<comment> \<open>\<^verbatim>\<open>eval_let_decl\<close>, \<^verbatim>\<open>eval_var_decl\<close>, \<^verbatim>\<open>eval_const_decl\<close>\<close>
| "eval_node H n ev (LetDecl name value) env s =
     (case ev value env s of
        (Stop a, s1) \<Rightarrow> (Stop a, s1)
      | (Normal v, s1) \<Rightarrow>
          (case define_var env name v False s1 of
             Inl x \<Rightarrow> (Stop (Raise x), s1)
           | Inr s2 \<Rightarrow> (Normal VNone, s2)))"
| "eval_node H n ev (VarDecl name value) env s =
     (case ev value env s of
        (Stop a, s1) \<Rightarrow> (Stop a, s1)
      | (Normal v, s1) \<Rightarrow>
          (case define_var env name v True s1 of
             Inl x \<Rightarrow> (Stop (Raise x), s1)
           | Inr s2 \<Rightarrow> (Normal VNone, s2)))"
| "eval_node H n ev (ConstDecl name value) env s =
     (case ev value env s of
        (Stop a, s1) \<Rightarrow> (Stop a, s1)
      | (Normal v, s1) \<Rightarrow>
          (case define_var env name v False s1 of
             Inl x \<Rightarrow> (Stop (Raise x), s1)
           | Inr s2 \<Rightarrow> (Normal VNone, s2)))"
  \<comment> \<open>\<^verbatim>\<open>eval_fn_decl\<close>\<close>
| "eval_node H n ev (FnDecl name params body) env s =
     (let func = FloFunction (next_id s) name params body env;
          s1 = s\<lparr>next_id := Suc (next_id s)\<rparr>
      in case define_var env name func False s1 of
           Inl x \<Rightarrow> (Stop (Raise x), s1)
         | Inr s2 \<Rightarrow> (Normal VNone, s2))"
  \<comment> \<open>\<^verbatim>\<open>eval_return_stmt\<close>\<close>
| "eval_node H n ev (ReturnStmt value) env s =
     (case value of
        None \<Rightarrow> (Stop (Raise (ReturnValue VNone)), s)
      | Some e \<Rightarrow>
          (case ev e env s of
             (Stop a, s1) \<Rightarrow> (Stop a, s1)
           | (Normal v, s1) \<Rightarrow> (Stop (Raise (ReturnValue v)), s1)))"
| "eval_node H n ev (ExprStmt e) env s = ev e env s"
| "eval_node H n ev (Import name path version alias) env s = (Normal VNone, s)"
| "eval_node H n ev (CapabilityRequest capability type_name) env s = (Normal VNone, s)"
| "eval_node H n ev (IntLiteral i) env s = (Normal (VInt i), s)"
| "eval_node H n ev (FloatLiteral w) env s = (Normal (VFloat w), s)"
| "eval_node H n ev (StringLiteral x) env s = (Normal (VStr x), s)"
| "eval_node H n ev (BoolLiteral b) env s = (Normal (VBool b), s)"
| "eval_node H n ev NilLiteral env s = (Normal VNone, s)"
| "eval_node H n ev (VarRef name) env s =
     (case get_var env name s of
        Inl x \<Rightarrow> (Stop (Raise x), s)
      | Inr v \<Rightarrow> (Normal v, s))"
  \<comment> \<open>\<^verbatim>\<open>eval_binary_expr\<close>: both operands first, then the operator\<close>
| "eval_node H n ev (BinaryExpr l op r) env s =
     (case ev l env s of
        (Stop a, s1) \<Rightarrow> (Stop a, s1)
      | (Normal left, s1) \<Rightarrow>
          (case ev r env s1 of
             (Stop a, s2) \<Rightarrow> (Stop a, s2)
           | (Normal right, s2) \<Rightarrow>
               (if op = AND then (Normal (py_and left right), s2)
                else if op = OR then (Normal (py_or left right), s2)
                else if op = PIPELINE_FORWARD then
                  (if callable right then call_function H ev right [left] env s2
                   else (Stop (Raise (FloRuntimeError ''Right side of |> must be callable'')), s2))
                else if op = PIPELINE_BACKWARD then
                  (if callable left then call_function H ev left [right] env s2
                   else (Stop (Raise (FloRuntimeError ''Left side of <| must be callable'')), s2))
                else
                  (case py_binop H op left right of
                     Inl x \<Rightarrow> (Stop (Raise x), s2)
                   | Inr v \<Rightarrow> (Normal v, s2)))))"
  \<comment> \<open>\<^verbatim>\<open>eval_unary_expr\<close>\<close>
| "eval_node H n ev (UnaryExpr op e) env s =
     (case ev e env s of
        (Stop a, s1) \<Rightarrow> (Stop a, s1)
      | (Normal v, s1) \<Rightarrow>
          (if op = NOT then (Normal (VBool (\<not> py_bool v)), s1)
           else
             (case py_unop H op v of
                Inl x \<Rightarrow> (Stop (Raise x), s1)
              | Inr u \<Rightarrow> (Normal u, s1))))"
  \<comment> \<open>\<^verbatim>\<open>eval_assignment\<close>\<close>
| "eval_node H n ev (Assignment name value) env s =
     (case ev value env s of
        (Stop a, s1) \<Rightarrow> (Stop a, s1)
      | (Normal v, s1) \<Rightarrow>
          (case set_var env name v s1 of
             Inl x \<Rightarrow> (Stop (Raise x), s1)
           | Inr s2 \<Rightarrow> (Normal v, s2)))"
  \<comment> \<open>\<^verbatim>\<open>eval_call\<close>\<close>
| "eval_node H n ev (Call func args) env s =
     (case ev func env s of
        (Stop a, s1) \<Rightarrow> (Stop a, s1)
      | (Normal f, s1) \<Rightarrow>
          (case eval_list ev args env s1 of
             (Stop a, s2) \<Rightarrow> (Stop a, s2)
           | (Normal vs, s2) \<Rightarrow> call_function H ev f vs env s2))"
  \<comment> \<open>\<^verbatim>\<open>eval_list_expr\<close>, \<^verbatim>\<open>eval_map_expr\<close>\<close>
| "eval_node H n ev (ListExpr elements) env s =
     (case eval_list ev elements env s of
        (Stop a, s1) \<Rightarrow> (Stop a, s1)
      | (Normal vs, s1) \<Rightarrow> (Normal (VList vs), s1))"
| "eval_node H n ev (MapExpr entries) env s = eval_entries ev entries [] env s"
  \<comment> \<open>\<^verbatim>\<open>eval_index\<close>\<close>
| "eval_node H n ev (Index e i) env s =
     (case ev e env s of
        (Stop a, s1) \<Rightarrow> (Stop a, s1)
      | (Normal obj, s1) \<Rightarrow>
          (case ev i env s1 of
             (Stop a, s2) \<Rightarrow> (Stop a, s2)
           | (Normal index, s2) \<Rightarrow>
               (case py_getitem H obj index of
                  Inl x \<Rightarrow> (Stop (Raise x), s2)
                | Inr v \<Rightarrow> (Normal v, s2))))"
  \<comment> \<open>\<^verbatim>\<open>eval_attr\<close>; \<^verbatim>\<open>getattr\<close> of a \<^verbatim>\<open>FloStrand\<close> finds the attribute \<^verbatim>\<open>task\<close> that
      \<^verbatim>\<open>FloStrand.__init__\<close> set\<close>
| "eval_node H n ev (Attr e name) env s =
     (case ev e env s of
        (Stop a, s1) \<Rightarrow> (Stop a, s1)
      | (Normal obj, s1) \<Rightarrow>
          (case obj of
             VDict kvs \<Rightarrow> (Normal (dict_get kvs name), s1)
           | _ \<Rightarrow>
               (case strand_task obj name of
                  Some task \<Rightarrow> (Normal task, s1)
                | None \<Rightarrow>
                    (case py_getattr H obj name of
                       Inl x \<Rightarrow> (Stop (Raise x), s1)
                     | Inr v \<Rightarrow> (Normal v, s1)))))"
  \<comment> \<open>no branch of the dispatch takes an \<^verbatim>\<open>OptionalChain\<close>\<close>
| "eval_node H n ev (OptionalChain e name) env s =
     (Stop (Raise (FloRuntimeError ''Unknown node type: OptionalChain'')), s)"
  \<comment> \<open>\<^verbatim>\<open>eval_if_expr\<close>\<close>
| "eval_node H n ev (IfExpr condition then_block elif_clauses else_block) env s =
     (case ev condition env s of
        (Stop a, s1) \<Rightarrow> (Stop a, s1)
      | (Normal c, s1) \<Rightarrow>
          (if py_bool c then eval_block ev then_block VNone env s1
           else eval_elifs ev elif_clauses else_block env s1))"
  \<comment> \<open>\<^verbatim>\<open>eval_match_expr\<close>\<close>
| "eval_node H n ev (MatchExpr e arms) env s =
     (case ev e env s of
        (Stop a, s1) \<Rightarrow> (Stop a, s1)
      | (Normal v, s1) \<Rightarrow> eval_arms H ev arms v env s1)"
  \<comment> \<open>\<^verbatim>\<open>eval_for_expr\<close>\<close>
| "eval_node H n ev (ForExpr var iterable body) env s =
     (case ev iterable env s of
        (Stop a, s1) \<Rightarrow> (Stop a, s1)
      | (Normal it, s1) \<Rightarrow>
          (case py_iter H it of
             Inl x \<Rightarrow> (Stop (Raise x), s1)
           | Inr items \<Rightarrow> eval_for ev var items body VNone env s1))"
  \<comment> \<open>\<^verbatim>\<open>eval_while_expr\<close>\<close>
| "eval_node H n ev (WhileExpr condition body) env s =
     eval_while ev n condition body VNone env s"
| "eval_node H n ev (AttemptExpr body rescue finally_clause) env s =
     eval_attempt_expr ev body rescue finally_clause env s"
  \<comment> \<open>\<^verbatim>\<open>eval_fn_expr\<close>\<close>
| "eval_node H n ev (FnExpr params body) env s =
     (Normal (FloFunction (next_id s) ''<lambda>'' params body env),
      s\<lparr>next_id := Suc (next_id s)\<rparr>)"
| "eval_node H n ev (StrandExpr body) env s = eval_strand_expr body env s"
| "eval_node H n ev (AwaitExpr e) env s = eval_await_expr ev e env s"
  \<comment> \<open>\<^verbatim>\<open>eval_option_expr\<close>; \<^verbatim>\<open>self.eval(None, env)\<close> ends in the dispatch's \<^verbatim>\<open>else\<close>\<close>
| "eval_node H n ev (OptionExpr variant value) env s =
     (if variant = ''None'' then (Normal VNone, s)
      else if variant = ''Some'' then
        (case value of
           Some e \<Rightarrow> ev e env s
         | None \<Rightarrow> (Stop (Raise (FloRuntimeError ''Unknown node type: NoneType'')), s))
      else (Normal VNone, s))"
  \<comment> \<open>\<^verbatim>\<open>eval_result_expr\<close>\<close>
| "eval_node H n ev (ResultExpr variant value) env s =
     (case ev value env s of
        (Stop a, s1) \<Rightarrow> (Stop a, s1)
      | (Normal v, s1) \<Rightarrow>
          (if variant = ''Ok'' then (Normal (VTuple [VStr ''Ok'', v]), s1)
           else if variant = ''Err'' then (Normal (VTuple [VStr ''Err'', v]), s1)
           else (Normal VNone, s1)))"

fun eval :: "host \<Rightarrow> nat \<Rightarrow> node \<Rightarrow> environment \<Rightarrow> state \<Rightarrow> val result \<times> state" where
  "eval H 0 node env s = (Stop OutOfFuel, s)"
| "eval H (Suc n) node env s = eval_node H n (eval H n) node env s"

subsection \<open>Running a program\<close>

text \<open>
  \<^verbatim>\<open>Evaluator.__init__\<close> makes the global environment and \<^verbatim>\<open>setup_builtins\<close> installs
  the six builtins in it, each with the default \<^verbatim>\<open>mutable=False\<close>; \<^verbatim>\<open>eval\<close> without an
  environment evaluates in the global one.
\<close>

definition empty_state :: state where
  "empty_state =
     \<lparr>frames = (\<lambda>i. \<lparr>bindings = Map.empty, mutable = Map.empty\<rparr>),
      next_id = 0, stdout = [], tasks = Map.empty, ready = [], current = None\<rparr>"

definition setup_builtins :: "environment \<Rightarrow> state \<Rightarrow> state" where
  "setup_builtins global_env s =
     snd (define_all global_env
            [(''print'', Builtin ''print''), (''range'', Builtin ''range''),
             (''len'', Builtin ''len''), (''str'', Builtin ''str''),
             (''int'', Builtin ''int''), (''float'', Builtin ''float'')] s)"

definition new_evaluator :: "environment \<times> state" where
  "new_evaluator =
     (let (global_env, s) = new_environment None empty_state
      in (global_env, setup_builtins global_env s))"

definition run :: "host \<Rightarrow> nat \<Rightarrow> node \<Rightarrow> val result \<times> state" where
  "run H n ast = (let (global_env, s) = new_evaluator in eval H n ast global_env s)"

text \<open>
  A host for the examples: integer arithmetic and comparison, equality of values,
  iteration over a list, and an error for everything else.
\<close>

definition int_binop :: "BinaryOp \<Rightarrow> val \<Rightarrow> val \<Rightarrow> exn + val" where
  "int_binop op a b =
     (if op = EQ then Inr (VBool (a = b))
      else if op = NEQ then Inr (VBool (a \<noteq> b))
      else (case (a, b) of
              (VInt x, VInt y) \<Rightarrow>
                (if op = ADD then Inr (VInt (x + y))
                 else if op = SUB then Inr (VInt (x - y))
                 else if op = MUL then Inr (VInt (x * y))
                 else if op = LT then Inr (VBool (x < y))
                 else if op = GT then Inr (VBool (x > y))
                 else if op = LTE then Inr (VBool (x \<le> y))
                 else if op = GTE then Inr (VBool (x \<ge> y))
                 else Inl (HostError ''TypeError'' ''unsupported operand''))
            | _ \<Rightarrow> Inl (HostError ''TypeError'' ''unsupported operand'')))"

definition int_host :: host where
  "int_host =
     \<lparr>py_binop = int_binop,
      py_unop = (\<lambda>op v. case v of VInt x \<Rightarrow> Inr (VInt (if op = NEG then - x else x))
                               | _ \<Rightarrow> Inl (HostError ''TypeError'' ''bad operand'')),
      py_getitem = (\<lambda>obj i. Inl (HostError ''TypeError'' ''not subscriptable'')),
      py_getattr = (\<lambda>obj name. Inl (HostError ''AttributeError'' name)),
      py_iter = (\<lambda>v. case v of VList xs \<Rightarrow> Inr xs
                           | _ \<Rightarrow> Inl (HostError ''TypeError'' ''not iterable'')),
      py_call = (\<lambda>func args. Inl (HostError ''TypeError'' ''unsupported call'')),
      py_str = (\<lambda>v. ''<value>'')\<rparr>"

section \<open>Notions the properties are stated with\<close>

text \<open>
  The nearest scope that owns a name, walking from a scope toward the root: the scope
  itself when its own dictionary has the name, else the nearest owner seen from its
  parent, and none when the chain ends.
\<close>

fun owner :: "environment \<Rightarrow> string \<Rightarrow> state \<Rightarrow> nat option" where
  "owner (Environment i p) name s =
     (if bindings (frames s i) name \<noteq> None then Some i
      else (case p of Some pe \<Rightarrow> owner pe name s | None \<Rightarrow> None))"

text \<open>The store in which scope \<open>a\<close> binds \<open>name\<close> to \<open>v\<close> and nothing else has changed.\<close>

definition rebind :: "nat \<Rightarrow> string \<Rightarrow> val \<Rightarrow> state \<Rightarrow> state" where
  "rebind a name v s =
     s\<lparr>frames := (frames s)(a := (frames s a)\<lparr>bindings := (bindings (frames s a))(name \<mapsto> v)\<rparr>)\<rparr>"

text \<open>
  An example store: scope 0 holds \<^verbatim>\<open>var x := 1\<close> and \<^verbatim>\<open>let y := 5\<close>; scope 1, its
  child, holds nothing.
\<close>

definition two_scopes :: state where
  "two_scopes =
     \<lparr>frames = (\<lambda>i. if i = 0
                    then \<lparr>bindings = [''x'' \<mapsto> VInt 1, ''y'' \<mapsto> VInt 5],
                          mutable = [''x'' \<mapsto> True, ''y'' \<mapsto> False]\<rparr>
                    else \<lparr>bindings = Map.empty, mutable = Map.empty\<rparr>),
      next_id = 2, stdout = [], tasks = Map.empty, ready = [], current = None\<rparr>"

definition outer_scope :: environment where
  "outer_scope = Environment 0 None"

definition inner_scope :: environment where
  "inner_scope = Environment 1 (Some (Environment 0 None))"

text \<open>
  The values Python's truth test rejects: \<^verbatim>\<open>False\<close>, \<^verbatim>\<open>None\<close>, the integer zero, the two
  float zeros, the empty string, list, dictionary, tuple and range, and any other
  object of the host that Python's test of it rejects (empty bytes, say).
\<close>

definition falsy_values :: "val \<Rightarrow> bool" where
  "falsy_values v =
     (v = VBool False \<or> v = VNone \<or> v = VInt 0 \<or> v = VFloat 0 \<or> v = VFloat 0x8000000000000000
      \<or> v = VStr [] \<or> v = VList [] \<or> v = VDict [] \<or> v = VTuple []
      \<or> (case v of
            VRange a b \<Rightarrow> b \<le> a
          | HostObject k truth kind \<Rightarrow> truth = False
          | _ \<Rightarrow> False))"

text \<open>
  Two programs on a strand \<^verbatim>\<open>let s := strand do return 42 end\<close>: the first ends in
  \<^verbatim>\<open>s.task\<close>, the second in \<^verbatim>\<open>await s.task\<close>. And the two strands of the interpreter's
  test \<^verbatim>\<open>test_multiple_strands\<close>.
\<close>

definition strand_42 :: node where
  "strand_42 = LetDecl ''s'' (StrandExpr [ReturnStmt (Some (IntLiteral 42))])"

definition task_of_strand :: node where
  "task_of_strand = Module [strand_42, ExprStmt (Attr (VarRef ''s'') ''task'')]"

definition await_task_of_strand :: node where
  "await_task_of_strand =
     Module [strand_42, ExprStmt (AwaitExpr (Attr (VarRef ''s'') ''task''))]"

definition multiple_strands :: node where
  "multiple_strands = Module
     [FnDecl ''double'' [''x'']
        [ReturnStmt (Some (BinaryExpr (VarRef ''x'') MUL (IntLiteral 2)))],
      LetDecl ''s1'' (StrandExpr [ReturnStmt (Some (Call (VarRef ''double'') [IntLiteral 5]))]),
      LetDecl ''s2'' (StrandExpr [ReturnStmt (Some (Call (VarRef ''double'') [IntLiteral 10]))]),
      LetDecl ''r1'' (AwaitExpr (VarRef ''s1'')),
      LetDecl ''r2'' (AwaitExpr (VarRef ''s2'')),
      ExprStmt (BinaryExpr (VarRef ''r1'') ADD (VarRef ''r2''))]"

text \<open>A block that prints one line: \<^verbatim>\<open>print("finally")\<close>.\<close>

definition print_once :: "node list" where
  "print_once = [ExprStmt (Call (VarRef ''print'') [StringLiteral ''finally''])]"

text \<open>
  One evaluator extends another when it agrees with it wherever the other did not run
  out of fuel.
\<close>

definition extends :: "evaluator \<Rightarrow> evaluator \<Rightarrow> bool" where
  "extends ev ev' =
     (\<forall>node env s r s'. ev node env s = (r, s') \<longrightarrow> r \<noteq> Stop OutOfFuel \<longrightarrow> ev' node env s = (r, s'))"

text \<open>Unfolding a run of a whole program from a new evaluator.\<close>

lemmas run_simps = run_def new_evaluator_def new_environment_def setup_builtins_def
  define_var_def empty_state_def eval_nat_numeral

lemmas strand_simps = eval_strand_expr_def eval_await_expr_def await_value_def
  await_task_def task_done_def task_result_def run_strand_def call_function_def

section \<open>Fuel\<close>

text \<open>
  More fuel changes nothing but the point where an evaluation runs out of it: whatever an
  evaluation yields with some fuel, other than \<open>OutOfFuel\<close>, it yields with any larger
  amount. So a property of an outcome proved below at some fuel holds at every larger
  one. Each loop and each method keeps the outcomes of an evaluator it is handed when
  it is handed one that extends it.
\<close>

lemma extends_Normal:
  "extends ev ev' \<Longrightarrow> ev node env s = (Normal v, s') \<Longrightarrow> ev' node env s = (Normal v, s')"
  by (simp add: extends_def)

lemma extends_Stop:
  "extends ev ev' \<Longrightarrow> ev node env s = (Stop a, s') \<Longrightarrow> a \<noteq> OutOfFuel \<Longrightarrow>
     ev' node env s = (Stop a, s')"
  by (simp add: extends_def)

lemma extendsD:
  "extends ev ev' \<Longrightarrow> ev node env s = (r, s') \<Longrightarrow> r \<noteq> Stop OutOfFuel \<Longrightarrow>
     ev' node env s = (r, s')"
  by (simp add: extends_def)

lemma eval_block_extends:
  assumes ext: "extends ev ev'"
  shows "eval_block ev b r env s = (res, s') \<Longrightarrow> res \<noteq> Stop OutOfFuel \<Longrightarrow>
     eval_block ev' b r env s = (res, s')"
proof (induction b arbitrary: r s)
  case Nil
  then show ?case by simp
next
  case (Cons stmt rest)
  then show ?case
    by (auto split: prod.splits result.splits
        dest!: extends_Normal [OF ext] extends_Stop [OF ext])
qed

lemma eval_list_extends:
  assumes ext: "extends ev ev'"
  shows "eval_list ev es env s = (res, s') \<Longrightarrow> res \<noteq> Stop OutOfFuel \<Longrightarrow>
     eval_list ev' es env s = (res, s')"
proof (induction es arbitrary: s res s')
  case Nil
  then show ?case by simp
next
  case (Cons e rest)
  then show ?case
    by (auto split: prod.splits result.splits
        dest!: extends_Normal [OF ext] extends_Stop [OF ext])
qed

lemma eval_entries_extends:
  assumes ext: "extends ev ev'"
  shows "eval_entries ev es acc env s = (res, s') \<Longrightarrow> res \<noteq> Stop OutOfFuel \<Longrightarrow>
     eval_entries ev' es acc env s = (res, s')"
proof (induction es arbitrary: s acc)
  case Nil
  then show ?case by simp
next
  case (Cons e rest)
  then show ?case
    by (cases e) (auto split: prod.splits result.splits
        dest!: extends_Normal [OF ext] extends_Stop [OF ext])
qed

lemma eval_elifs_extends:
  assumes ext: "extends ev ev'"
  shows "eval_elifs ev cs eb env s = (res, s') \<Longrightarrow> res \<noteq> Stop OutOfFuel \<Longrightarrow>
     eval_elifs ev' cs eb env s = (res, s')"
proof (induction cs arbitrary: s)
  case Nil
  then show ?case
    by (auto split: option.splits if_splits dest!: eval_block_extends [OF ext])
next
  case (Cons c rest)
  then show ?case
    by (cases c) (auto split: prod.splits result.splits if_splits
        dest!: extends_Normal [OF ext] extends_Stop [OF ext] eval_block_extends [OF ext])
qed

lemma eval_arms_extends:
  assumes ext: "extends ev ev'"
  shows "eval_arms H ev arms v env s = (res, s') \<Longrightarrow> res \<noteq> Stop OutOfFuel \<Longrightarrow>
     eval_arms H ev' arms v env s = (res, s')"
proof (induction arms arbitrary: s)
  case Nil
  then show ?case by simp
next
  case (Cons c rest)
  then show ?case
    by (cases c) (auto split: prod.splits result.splits if_splits
        intro: extendsD [OF ext])
qed

lemma eval_for_extends:
  assumes ext: "extends ev ev'"
  shows "eval_for ev var items body r env s = (res, s') \<Longrightarrow> res \<noteq> Stop OutOfFuel \<Longrightarrow>
     eval_for ev' var items body r env s = (res, s')"
proof (induction items arbitrary: s r)
  case Nil
  then show ?case by simp
next
  case (Cons c rest)
  then show ?case
    by (auto simp: Let_def split: prod.splits result.splits sum.splits
        dest!: eval_block_extends [OF ext])
qed

lemma eval_while_extends:
  assumes ext: "extends ev ev'"
  shows "eval_while ev k c body r env s = (res, s') \<Longrightarrow> res \<noteq> Stop OutOfFuel \<Longrightarrow>
     eval_while ev' (Suc k) c body r env s = (res, s')"
proof (induction k arbitrary: s r)
  case 0
  then show ?case by simp
next
  case (Suc k)
  from Suc.prems show ?case
    apply (subst eval_while.simps)
    apply (subst (asm) eval_while.simps)
    apply (auto split: prod.splits result.splits if_splits
        dest!: extends_Normal [OF ext] extends_Stop [OF ext] eval_block_extends [OF ext]
          Suc.IH simp del: eval_while.simps)
    done
qed


lemma call_function_extends:
  assumes ext: "extends ev ev'"
  shows "call_function H ev f args env s = (res, s') \<Longrightarrow> res \<noteq> Stop OutOfFuel \<Longrightarrow>
     call_function H ev' f args env s = (res, s')"
  unfolding call_function_def
  by (cases f)
     (auto simp: Let_def
        split: prod.splits result.splits signal.splits exn.splits option.splits if_splits
          sum.splits
        dest!: eval_block_extends [OF ext])

lemma exec_block_extends:
  assumes ext: "extends ev ev'"
  shows "exec_block ev b env s = (res, s') \<Longrightarrow> res \<noteq> Stop OutOfFuel \<Longrightarrow>
     exec_block ev' b env s = (res, s')"
  unfolding exec_block_def
  by (auto split: prod.splits result.splits dest!: eval_block_extends [OF ext])

lemma eval_attempt_expr_extends:
  assumes ext: "extends ev ev'"
  shows "eval_attempt_expr ev body rescue fin env s = (res, s') \<Longrightarrow> res \<noteq> Stop OutOfFuel \<Longrightarrow>
     eval_attempt_expr ev' body rescue fin env s = (res, s')"
  unfolding eval_attempt_expr_def try_finally_def try_except_def
  by (auto simp: Let_def
        split: prod.splits result.splits signal.splits option.splits sum.splits
        dest!: eval_block_extends [OF ext] exec_block_extends [OF ext])


lemma run_strand_extends:
  assumes ext: "extends ev ev'"
  shows "run_strand ev i s = (res, s') \<Longrightarrow> res \<noteq> Stop OutOfFuel \<Longrightarrow>
     run_strand ev' i s = (res, s')"
proof -
  assume run: "run_strand ev i s = (res, s')" and fuel: "res \<noteq> Stop OutOfFuel"
  show ?thesis
  proof (cases "tasks s i")
    case None
    with run show ?thesis by (simp add: run_strand_def)
  next
    case (Some t)
    let ?s0 = "s\<lparr>ready := remove1 i (ready s), current := Some i\<rparr>"
    obtain x s1 where x: "eval_block ev (strand_body t) VNone (strand_env t) ?s0 = (x, s1)"
      by (cases "eval_block ev (strand_body t) VNone (strand_env t) ?s0")
    from x run fuel Some have "x \<noteq> Stop OutOfFuel"
      by (auto simp: run_strand_def)
    from eval_block_extends [OF ext x this]
    have "eval_block ev' (strand_body t) VNone (strand_env t) ?s0 = (x, s1)" .
    with x run Some show ?thesis by (simp add: run_strand_def)
  qed
qed

lemma run_tasks_extends:
  assumes ext: "extends ev ev'"
  shows "run_tasks ev is s = (res, s') \<Longrightarrow> res \<noteq> Stop OutOfFuel \<Longrightarrow>
     run_tasks ev' is s = (res, s')"
proof (induction "is" arbitrary: s)
  case Nil
  then show ?case by simp
next
  case (Cons i rest)
  then show ?case
    by (auto split: prod.splits result.splits dest!: run_strand_extends [OF ext])
qed

lemma await_task_extends:
  assumes ext: "extends ev ev'"
  shows "await_task ev i s = (res, s') \<Longrightarrow> res \<noteq> Stop OutOfFuel \<Longrightarrow>
     await_task ev' i s = (res, s')"
  unfolding await_task_def
  by (auto split: prod.splits result.splits if_splits dest!: run_tasks_extends [OF ext])

lemma await_value_extends:
  assumes ext: "extends ev ev'"
  shows "await_value ev v s = (res, s') \<Longrightarrow> res \<noteq> Stop OutOfFuel \<Longrightarrow>
     await_value ev' v s = (res, s')"
  by (cases v) (auto simp: await_value_def dest!: await_task_extends [OF ext])

lemma eval_await_expr_extends:
  assumes ext: "extends ev ev'"
  shows "eval_await_expr ev e env s = (res, s') \<Longrightarrow> res \<noteq> Stop OutOfFuel \<Longrightarrow>
     eval_await_expr ev' e env s = (res, s')"
  unfolding eval_await_expr_def
  by (auto split: prod.splits result.splits
      dest!: extends_Normal [OF ext] extends_Stop [OF ext] await_value_extends [OF ext])

lemma bind_extends:
  assumes ext: "extends ev ev'"
    and run: "(case ev a env s of (Normal v, s1) \<Rightarrow> f v s1 | (Stop sig, s1) \<Rightarrow> (Stop sig, s1))
                = (res, s')"
    and fuel: "res \<noteq> Stop OutOfFuel"
  shows "(case ev' a env s of (Normal v, s1) \<Rightarrow> f v s1 | (Stop sig, s1) \<Rightarrow> (Stop sig, s1))
           = (res, s')"
proof -
  obtain x s1 where x: "ev a env s = (x, s1)" by (cases "ev a env s")
  show ?thesis
  proof (cases x)
    case (Normal v)
    with x have "ev' a env s = (Normal v, s1)" by (simp add: extends_Normal [OF ext])
    with x Normal run show ?thesis by simp
  next
    case (Stop sig)
    with x run fuel have "sig \<noteq> OutOfFuel" by auto
    with x Stop have "ev' a env s = (Stop sig, s1)" by (simp add: extends_Stop [OF ext])
    with x Stop run show ?thesis by auto
  qed
qed

lemma eval_node_extends:
  assumes ext: "extends ev ev'"
    and run: "eval_node H n ev node env s = (res, s')"
    and fuel: "res \<noteq> Stop OutOfFuel"
  shows "eval_node H (Suc n) ev' node env s = (res, s')"
proof (cases node)
  case (BinaryExpr l op r)
  with run fuel show ?thesis
    by (auto split: prod.splits result.splits sum.splits if_splits
        dest!: extends_Normal [OF ext] extends_Stop [OF ext] call_function_extends [OF ext])
next
  case (Call f args)
  with run fuel show ?thesis
    by (auto split: prod.splits result.splits
        dest!: extends_Normal [OF ext] extends_Stop [OF ext] eval_list_extends [OF ext]
          call_function_extends [OF ext])
next
  case (WhileExpr c body)
  with run fuel show ?thesis
    by (auto simp del: eval_while.simps dest!: eval_while_extends [OF ext])
next
  case (AttemptExpr body rescue fin)
  with run fuel show ?thesis
    by (auto dest!: eval_attempt_expr_extends [OF ext])
next
  case (IfExpr c tb el eb)
  with run fuel show ?thesis
    by (auto split: prod.splits result.splits if_splits
        dest!: extends_Normal [OF ext] extends_Stop [OF ext] eval_block_extends [OF ext]
          eval_elifs_extends [OF ext])
next
  case (MatchExpr e arms)
  with run fuel show ?thesis
    by (auto split: prod.splits result.splits
        dest!: extends_Normal [OF ext] extends_Stop [OF ext] eval_arms_extends [OF ext])
next
  case (ForExpr var it body)
  with run fuel show ?thesis
    by (auto split: prod.splits result.splits sum.splits
        dest!: extends_Normal [OF ext] extends_Stop [OF ext] eval_for_extends [OF ext])
next
  case (AwaitExpr e)
  with run fuel show ?thesis
    by (auto dest!: eval_await_expr_extends [OF ext])
next
  case (Attr e name)
  with run fuel show ?thesis
    using bind_extends [OF ext, where a = e and env = env and s = s] by simp
next
  case (ExprStmt e)
  with run fuel show ?thesis
    by (simp add: extendsD [OF ext])
next
  case (OptionExpr variant e)
  with run fuel show ?thesis
    by (cases e) (auto simp: extendsD [OF ext] split: if_splits)
qed (use run fuel in \<open>auto simp: Let_def
        split: prod.splits result.splits sum.splits option.splits if_splits
        dest!: extends_Normal [OF ext] extends_Stop [OF ext] eval_block_extends [OF ext]
          eval_list_extends [OF ext] eval_entries_extends [OF ext]\<close>)

lemma eval_Suc: "eval H (Suc n) = eval_node H n (eval H n)"
  by (intro ext) simp

lemma eval_extends_Suc: "extends (eval H n) (eval H (Suc n))"
proof (induction n)
  case 0
  show ?case by (simp add: extends_def)
next
  case (Suc n)
  show ?case
    unfolding extends_def
  proof (intro allI impI)
    fix node env s r s'
    assume "eval H (Suc n) node env s = (r, s')" and "r \<noteq> Stop OutOfFuel"
    then show "eval H (Suc (Suc n)) node env s = (r, s')"
      using eval_node_extends [OF Suc.IH, of H n node env s r s']
      by (simp add: eval_Suc del: eval.simps)
  qed
qed

lemma eval_fuel_mono:
  "n \<le> m \<Longrightarrow> eval H n node env s = (r, s') \<Longrightarrow> r \<noteq> Stop OutOfFuel \<Longrightarrow>
     eval H m node env s = (r, s')"
proof (induction m)
  case 0
  then show ?case by simp
next
  case (Suc m)
  show ?case
  proof (cases "n = Suc m")
    case True
    with Suc.prems show ?thesis by simp
  next
    case False
    with Suc.prems have "n \<le> m" by simp
    from Suc.IH [OF this Suc.prems(2) Suc.prems(3)]
    show ?thesis using extendsD [OF eval_extends_Suc] Suc.prems(3) by blast
  qed
qed

section \<open>Environments: definition and assignment\<close>

lemma set_var_no_owner:
  "owner e name s = None \<Longrightarrow> set_var e name v s = Inl (UndefinedVariable name)"
  by (induction e) (auto simp: Let_def split: option.splits if_splits)

lemma set_var_immutable_owner:
  "owner e name s = Some a \<Longrightarrow> mutable (frames s a) name = Some False \<Longrightarrow>
     set_var e name v s = Inl (ImmutableReassignment name)"
  by (induction e) (auto simp: Let_def split: option.splits if_splits)

lemma set_var_mutable_owner:
  "owner e name s = Some a \<Longrightarrow> mutable (frames s a) name = Some True \<Longrightarrow>
     set_var e name v s = Inr (rebind a name v s)"
  by (induction e) (auto simp: Let_def rebind_def split: option.splits if_splits)

lemma get_var_after_rebind:
  "owner e name s = Some a \<Longrightarrow> get_var e name (rebind a name v s) = Inr v"
  by (induction e) (auto simp: rebind_def split: option.splits if_splits)

lemma define_var_records:
  "define_var e name v m s = Inr s1 \<Longrightarrow>
     owner e name s1 = Some (env_id e) \<and> mutable (frames s1 (env_id e)) name = Some m"
  by (cases e) (auto simp: define_var_def Let_def split: if_splits)

text \<open>
  C7. \<^verbatim>\<open>define\<close> fails, with the duplicate-definition error, exactly when the name is
  already in the dictionary of the scope itself. The parent plays no part: the outcome
  is the same under any parent. Hence defining a name in a fresh child scope succeeds
  whatever the scopes above it bind, and a second \<^verbatim>\<open>define\<close> of a name in the same scope
  fails.
\<close>

theorem define_fails_iff_bound_in_this_scope:
  "(define_var (Environment i p) name v m s = Inl (DuplicateDefinition name))
      = (bindings (frames s i) name \<noteq> None)
   \<and> (\<forall>x. define_var (Environment i p) name v m s = Inl x \<longrightarrow> x = DuplicateDefinition name)
   \<and> define_var (Environment i p) name v m s = define_var (Environment i p') name v m s
   \<and> (\<exists>s2. define_var (fst (new_environment (Some (Environment i p)) s)) name v m
               (snd (new_environment (Some (Environment i p)) s)) = Inr s2)
   \<and> (\<forall>s1. define_var (Environment i p) name v m s = Inr s1 \<longrightarrow>
         define_var (Environment i p) name v' m' s1 = Inl (DuplicateDefinition name))"
  by (auto simp: define_var_def new_environment_def Let_def split: if_splits)

theorem define_fails_iff_bound_in_this_scope_witness:
  "define_var outer_scope ''x'' (VInt 7) False two_scopes = Inl (DuplicateDefinition ''x'')
   \<and> (\<exists>s2. define_var (fst (new_environment (Some outer_scope) two_scopes)) ''x'' (VInt 7) False
               (snd (new_environment (Some outer_scope) two_scopes)) = Inr s2)
   \<and> (\<exists>s1. define_var outer_scope ''z'' (VInt 7) False two_scopes = Inr s1
         \<and> define_var outer_scope ''z'' (VInt 8) True s1 = Inl (DuplicateDefinition ''z''))"
proof -
  note thm_x = define_fails_iff_bound_in_this_scope
    [where i = 0 and p = None and name = "''x''" and v = "VInt 7" and m = False
       and s = two_scopes and p' = None and v' = "VInt 8" and m' = True]
  note thm_z = define_fails_iff_bound_in_this_scope
    [where i = 0 and p = None and name = "''z''" and v = "VInt 7" and m = False
       and s = two_scopes and v' = "VInt 8" and m' = True]
  have bound: "bindings (frames two_scopes 0) ''x'' \<noteq> None"
    by (simp add: two_scopes_def)
  obtain s1 where s1: "define_var (Environment 0 None) ''z'' (VInt 7) False two_scopes = Inr s1"
    by (simp add: define_var_def two_scopes_def)
  from thm_x [THEN conjunct1] bound
  have a: "define_var outer_scope ''x'' (VInt 7) False two_scopes
      = Inl (DuplicateDefinition ''x'')"
    by (simp add: outer_scope_def)
  from thm_x [THEN conjunct2, THEN conjunct2, THEN conjunct2, THEN conjunct1]
  have b: "\<exists>s2. define_var (fst (new_environment (Some outer_scope) two_scopes))
      ''x'' (VInt 7) False (snd (new_environment (Some outer_scope) two_scopes)) = Inr s2"
    by (simp add: outer_scope_def)
  from thm_z [THEN conjunct2, THEN conjunct2, THEN conjunct2, THEN conjunct2] s1
  have "define_var (Environment 0 None) ''z'' (VInt 8) True s1
      = Inl (DuplicateDefinition ''z'')"
    by simp
  with s1 have c: "\<exists>s1. define_var outer_scope ''z'' (VInt 7) False two_scopes = Inr s1
         \<and> define_var outer_scope ''z'' (VInt 8) True s1 = Inl (DuplicateDefinition ''z'')"
    by (auto simp: outer_scope_def)
  from a b c show ?thesis by blast
qed

text \<open>
  C8. \<^verbatim>\<open>set\<close> acts on the nearest scope, from the current one toward the root, that owns
  the name. With no owner in the chain it fails with the undefined-variable error; with
  an owner whose binding was declared immutable it fails with the
  immutable-reassignment error; with an owner whose binding was declared mutable it
  succeeds, the new store differs from the old one in that binding of that scope only,
  and \<^verbatim>\<open>get\<close> of the name from the same scope then returns the new value. What a binding
  was declared as is what \<^verbatim>\<open>define\<close> recorded for it.
\<close>

theorem set_var_updates_nearest_owner:
  "(owner e name s = None \<longrightarrow> set_var e name v s = Inl (UndefinedVariable name))
   \<and> (\<forall>a. owner e name s = Some a \<and> mutable (frames s a) name = Some False \<longrightarrow>
          set_var e name v s = Inl (ImmutableReassignment name))
   \<and> (\<forall>a. owner e name s = Some a \<and> mutable (frames s a) name = Some True \<longrightarrow>
          set_var e name v s = Inr (rebind a name v s)
          \<and> get_var e name (rebind a name v s) = Inr v)
   \<and> (\<forall>s1. define_var e name v m s = Inr s1 \<longrightarrow>
          owner e name s1 = Some (env_id e) \<and> mutable (frames s1 (env_id e)) name = Some m)"
proof (intro conjI allI impI)
  assume "owner e name s = None"
  then show "set_var e name v s = Inl (UndefinedVariable name)"
    by (rule set_var_no_owner)
next
  fix a assume "owner e name s = Some a \<and> mutable (frames s a) name = Some False"
  then show "set_var e name v s = Inl (ImmutableReassignment name)"
    by (simp add: set_var_immutable_owner [of e name s a])
next
  fix a assume "owner e name s = Some a \<and> mutable (frames s a) name = Some True"
  then show "set_var e name v s = Inr (rebind a name v s)"
    by (simp add: set_var_mutable_owner [of e name s a])
next
  fix a assume "owner e name s = Some a \<and> mutable (frames s a) name = Some True"
  then show "get_var e name (rebind a name v s) = Inr v"
    by (simp add: get_var_after_rebind [of e name s a])
next
  fix s1 assume "define_var e name v m s = Inr s1"
  then show "owner e name s1 = Some (env_id e)"
    by (simp add: define_var_records)
next
  fix s1 assume "define_var e name v m s = Inr s1"
  then show "mutable (frames s1 (env_id e)) name = Some m"
    by (simp add: define_var_records)
qed

theorem set_var_updates_nearest_owner_witness:
  "set_var inner_scope ''w'' (VInt 2) two_scopes = Inl (UndefinedVariable ''w'')
   \<and> set_var inner_scope ''y'' (VInt 2) two_scopes = Inl (ImmutableReassignment ''y'')
   \<and> set_var inner_scope ''x'' (VInt 2) two_scopes = Inr (rebind 0 ''x'' (VInt 2) two_scopes)
   \<and> get_var inner_scope ''x'' (rebind 0 ''x'' (VInt 2) two_scopes) = Inr (VInt 2)
   \<and> owner inner_scope ''x'' two_scopes = Some 0"
proof -
  have w: "owner inner_scope ''w'' two_scopes = None"
    by (simp add: inner_scope_def two_scopes_def)
  have y: "owner inner_scope ''y'' two_scopes = Some 0
      \<and> mutable (frames two_scopes 0) ''y'' = Some False"
    by (simp add: inner_scope_def two_scopes_def)
  have x: "owner inner_scope ''x'' two_scopes = Some 0
      \<and> mutable (frames two_scopes 0) ''x'' = Some True"
    by (simp add: inner_scope_def two_scopes_def)
  from w set_var_updates_nearest_owner [of inner_scope "''w''" two_scopes "VInt 2"]
  have 1: "set_var inner_scope ''w'' (VInt 2) two_scopes = Inl (UndefinedVariable ''w'')"
    by blast
  from y set_var_updates_nearest_owner [of inner_scope "''y''" two_scopes "VInt 2"]
  have 2: "set_var inner_scope ''y'' (VInt 2) two_scopes = Inl (ImmutableReassignment ''y'')"
    by blast
  from x set_var_updates_nearest_owner [of inner_scope "''x''" two_scopes "VInt 2"]
  have 3: "set_var inner_scope ''x'' (VInt 2) two_scopes = Inr (rebind 0 ''x'' (VInt 2) two_scopes)
      \<and> get_var inner_scope ''x'' (rebind 0 ''x'' (VInt 2) two_scopes) = Inr (VInt 2)"
    by blast
  from 1 2 3 x show ?thesis by blast
qed

section \<open>Conditions and logical operators\<close>

lemma py_bool_falsy: "(\<not> py_bool v) = falsy_values v"
  by (cases v) (auto simp: falsy_values_def)

text \<open>
  C1, as the code has it. A condition is tested with Python's own truth test. Of the
  values the language itself makes, the falsy ones are \<^verbatim>\<open>False\<close>, \<^verbatim>\<open>None\<close>, the integer
  zero, a float zero and the empty string, list, dictionary, tuple and range, and all
  others are truthy; any other object of the host that reaches a condition is falsy
  when Python's test of that object says so. An \<^verbatim>\<open>if\<close> takes its then
  block when its condition is truthy and goes on to the elif clauses and the else block
  otherwise; an elif clause does the same; a \<^verbatim>\<open>while\<close> loop ends when its condition is
  falsy and runs its body once more when it is truthy; logical NOT yields the negated
  truth value.
\<close>

theorem conditions_use_python_truth:
  "(\<not> py_bool v) = falsy_values v
   \<and> (eval H n c env s = (Normal v, s1) \<longrightarrow>
        eval H (Suc n) (IfExpr c then_block elifs else_block) env s =
          (if py_bool v then eval_block (eval H n) then_block VNone env s1
           else eval_elifs (eval H n) elifs else_block env s1))
   \<and> (ev c env s = (Normal v, s1) \<longrightarrow>
        eval_elifs ev ((c, block) # elifs) else_block env s =
          (if py_bool v then eval_block ev block VNone env s1
           else eval_elifs ev elifs else_block env s1))
   \<and> (ev c env s = (Normal v, s1) \<and> \<not> py_bool v \<longrightarrow>
        eval_while ev (Suc k) c body r env s = (Normal r, s1))
   \<and> (ev c env s = (Normal v, s1) \<and> py_bool v \<and> eval_block ev body r env s1 = (Normal r', s2) \<longrightarrow>
        eval_while ev (Suc k) c body r env s = eval_while ev k c body r' env s2)
   \<and> (eval H n c env s = (Normal v, s1) \<longrightarrow>
        eval H (Suc n) (UnaryExpr NOT c) env s = (Normal (VBool (\<not> py_bool v)), s1))"
  by (simp add: py_bool_falsy)

theorem conditions_use_python_truth_witness:
  "eval int_host 3 (IfExpr (IntLiteral 0) [ExprStmt (IntLiteral 1)] []
       (Some [ExprStmt (IntLiteral 2)])) outer_scope two_scopes = (Normal (VInt 2), two_scopes)
   \<and> eval int_host 3 (IfExpr (IntLiteral 7) [ExprStmt (IntLiteral 1)] []
       (Some [ExprStmt (IntLiteral 2)])) outer_scope two_scopes = (Normal (VInt 1), two_scopes)
   \<and> eval int_host 3 (UnaryExpr NOT (StringLiteral [])) outer_scope two_scopes
       = (Normal (VBool True), two_scopes)
   \<and> eval_while (eval int_host 2) 1 (ListExpr []) [ExprStmt (IntLiteral 1)] VNone
       outer_scope two_scopes = (Normal VNone, two_scopes)
   \<and> falsy_values (VList [])"
proof -
  have zero: "eval int_host 2 (IntLiteral 0) outer_scope two_scopes = (Normal (VInt 0), two_scopes)"
    by (simp add: eval_nat_numeral)
  have seven: "eval int_host 2 (IntLiteral 7) outer_scope two_scopes = (Normal (VInt 7), two_scopes)"
    by (simp add: eval_nat_numeral)
  have empty_str: "eval int_host 2 (StringLiteral []) outer_scope two_scopes
      = (Normal (VStr []), two_scopes)"
    by (simp add: eval_nat_numeral)
  have empty_list: "eval int_host 2 (ListExpr []) outer_scope two_scopes
      = (Normal (VList []), two_scopes)"
    by (simp add: eval_nat_numeral)
  note at_zero = conditions_use_python_truth
    [where v = "VInt 0" and H = int_host and n = 2 and c = "IntLiteral 0" and env = outer_scope
       and s = two_scopes and ?s1.0 = two_scopes and then_block = "[ExprStmt (IntLiteral 1)]"
       and elifs = "[]" and else_block = "Some [ExprStmt (IntLiteral 2)]"]
  note at_seven = conditions_use_python_truth
    [where v = "VInt 7" and H = int_host and n = 2 and c = "IntLiteral 7" and env = outer_scope
       and s = two_scopes and ?s1.0 = two_scopes and then_block = "[ExprStmt (IntLiteral 1)]"
       and elifs = "[]" and else_block = "Some [ExprStmt (IntLiteral 2)]"]
  note at_str = conditions_use_python_truth
    [where v = "VStr []" and H = int_host and n = 2 and c = "StringLiteral []"
       and env = outer_scope and s = two_scopes and ?s1.0 = two_scopes]
  note at_list = conditions_use_python_truth
    [where v = "VList []" and ev = "eval int_host 2" and c = "ListExpr []"
       and env = outer_scope and s = two_scopes and ?s1.0 = two_scopes and k = 0
       and body = "[ExprStmt (IntLiteral 1)]" and r = VNone]
  from at_zero zero have 1: "eval int_host 3 (IfExpr (IntLiteral 0) [ExprStmt (IntLiteral 1)] []
       (Some [ExprStmt (IntLiteral 2)])) outer_scope two_scopes = (Normal (VInt 2), two_scopes)"
    by (simp add: eval_nat_numeral)
  from at_seven seven have 2: "eval int_host 3 (IfExpr (IntLiteral 7) [ExprStmt (IntLiteral 1)] []
       (Some [ExprStmt (IntLiteral 2)])) outer_scope two_scopes = (Normal (VInt 1), two_scopes)"
    by (simp add: eval_nat_numeral)
  from at_str empty_str have 3: "eval int_host 3 (UnaryExpr NOT (StringLiteral [])) outer_scope
       two_scopes = (Normal (VBool True), two_scopes)"
    by (simp add: eval_nat_numeral)
  from at_list empty_list have 4: "eval_while (eval int_host 2) 1 (ListExpr [])
       [ExprStmt (IntLiteral 1)] VNone outer_scope two_scopes = (Normal VNone, two_scopes)"
    by simp
  from at_list have 5: "falsy_values (VList [])"
    by simp
  from 1 2 3 4 5 show ?thesis by simp
qed

text \<open>
  Against C1 as stated: an \<^verbatim>\<open>if\<close> whose condition is \<^verbatim>\<open>Int(0)\<close> takes the else block, and
  the empty string and the empty list are falsy too.
\<close>

theorem int_zero_takes_else_branch:
  "fst (run int_host 5 (Module [ExprStmt
      (IfExpr (IntLiteral 0) [ExprStmt (StringLiteral ''then'')] []
         (Some [ExprStmt (StringLiteral ''else'')]))])) = Normal (VStr ''else'')
   \<and> fst (run int_host 5 (Module [ExprStmt
      (IfExpr (StringLiteral []) [ExprStmt (StringLiteral ''then'')] []
         (Some [ExprStmt (StringLiteral ''else'')]))])) = Normal (VStr ''else'')
   \<and> fst (run int_host 5 (Module [ExprStmt
      (IfExpr (ListExpr []) [ExprStmt (StringLiteral ''then'')] []
         (Some [ExprStmt (StringLiteral ''else'')]))])) = Normal (VStr ''else'')"
  by (simp add: run_simps)




section \<open>Return, attempt, rescue and finally\<close>

text \<open>
  C3 at its failing input. In \<^verbatim>\<open>fn f() do attempt do return 1 rescue e do 2 end; 3 end\<close>
  the \<^verbatim>\<open>return\<close> raises \<^verbatim>\<open>ReturnValue\<close>, the \<^verbatim>\<open>except Exception\<close> of the attempt takes
  it, the rescue block runs and the call goes on to return 3. Without the rescue clause
  the same call returns 1.
\<close>

theorem return_inside_rescued_attempt_is_caught:
  "fst (run int_host 8 (Module
     [FnDecl ''f'' []
        [ExprStmt (AttemptExpr [ReturnStmt (Some (IntLiteral 1))]
                     (Some (''e'', [ExprStmt (IntLiteral 2)])) None),
         ExprStmt (IntLiteral 3)],
      ExprStmt (Call (VarRef ''f'') [])])) = Normal (VInt 3)
   \<and> fst (run int_host 8 (Module
     [FnDecl ''f'' []
        [ExprStmt (AttemptExpr [ReturnStmt (Some (IntLiteral 1))] None None),
         ExprStmt (IntLiteral 3)],
      ExprStmt (Call (VarRef ''f'') [])])) = Normal (VInt 1)"
  by (simp add: run_simps call_function_def eval_attempt_expr_def try_except_def try_finally_def)

text \<open>
  C6, as the code has it. Take an attempt whose body, with the rescue block if one is
  taken, ends in \<open>r1\<close>: a value, an error on its way up or a \<^verbatim>\<open>return\<close> on its way up.
  With a finally clause the finally block is then evaluated once, from the store the
  body and the rescue block left. If the block ends normally its value is dropped and
  the attempt ends in \<open>r1\<close>. If the block itself raises an error or executes a \<^verbatim>\<open>return\<close>,
  that takes the place of \<open>r1\<close>.
\<close>

theorem finally_runs_once_after_attempt:
  "eval H (Suc n) (AttemptExpr body rescue None) env s = (r1, s1) \<Longrightarrow>
   r1 \<noteq> Stop OutOfFuel \<Longrightarrow> (\<forall>i. r1 \<noteq> Stop (Suspended i)) \<Longrightarrow>
   eval H (Suc n) (AttemptExpr body rescue (Some fblock)) env s =
     (case eval_block (eval H n) fblock VNone env s1 of
        (Normal u, s2) \<Rightarrow> (r1, s2)
      | (Stop a, s2) \<Rightarrow> (Stop a, s2))"
  by (auto simp: eval_attempt_expr_def try_finally_def exec_block_def
      split: prod.splits result.splits signal.splits)

theorem finally_runs_once_after_attempt_witness:
  "fst (eval int_host 6 (AttemptExpr [ExprStmt (VarRef ''missing'')] None (Some print_once))
         (fst new_evaluator) (snd new_evaluator)) = Stop (Raise (UndefinedVariable ''missing''))
   \<and> stdout (snd (eval int_host 6 (AttemptExpr [ExprStmt (VarRef ''missing'')] None (Some print_once))
         (fst new_evaluator) (snd new_evaluator))) = [[VStr ''finally'']]
   \<and> fst (eval int_host 6 (AttemptExpr [ReturnStmt (Some (IntLiteral 1))] None (Some print_once))
         (fst new_evaluator) (snd new_evaluator)) = Stop (Raise (ReturnValue (VInt 1)))
   \<and> stdout (snd (eval int_host 6 (AttemptExpr [ReturnStmt (Some (IntLiteral 1))] None (Some print_once))
         (fst new_evaluator) (snd new_evaluator))) = [[VStr ''finally'']]
   \<and> fst (eval int_host 6 (AttemptExpr [ExprStmt (VarRef ''missing'')]
         (Some (''e'', [ExprStmt (IntLiteral 2)])) (Some print_once))
         (fst new_evaluator) (snd new_evaluator)) = Normal (VInt 2)
   \<and> stdout (snd (eval int_host 6 (AttemptExpr [ExprStmt (VarRef ''missing'')]
         (Some (''e'', [ExprStmt (IntLiteral 2)])) (Some print_once))
         (fst new_evaluator) (snd new_evaluator))) = [[VStr ''finally'']]
   \<and> fst (eval int_host 6 (AttemptExpr [ExprStmt (IntLiteral 1)] None (Some print_once))
         (fst new_evaluator) (snd new_evaluator)) = Normal (VInt 1)
   \<and> stdout (snd (eval int_host 6 (AttemptExpr [ExprStmt (IntLiteral 1)] None (Some print_once))
         (fst new_evaluator) (snd new_evaluator))) = [[VStr ''finally'']]"
proof -
  let ?g = "fst new_evaluator" and ?s = "snd new_evaluator"
  obtain s1 where propagating: "eval int_host (Suc 5) (AttemptExpr [ExprStmt (VarRef ''missing'')] None None) ?g ?s
      = (Stop (Raise (UndefinedVariable ''missing'')), s1)" and out1: "stdout s1 = []"
      and print1: "get_var ?g ''print'' s1 = Inr (Builtin ''print'')"
    by (simp add: run_simps eval_attempt_expr_def try_except_def try_finally_def)
  obtain s2 where returning: "eval int_host (Suc 5) (AttemptExpr [ReturnStmt (Some (IntLiteral 1))] None None) ?g ?s
      = (Stop (Raise (ReturnValue (VInt 1))), s2)" and out2: "stdout s2 = []"
      and print2: "get_var ?g ''print'' s2 = Inr (Builtin ''print'')"
    by (simp add: run_simps eval_attempt_expr_def try_except_def try_finally_def)
  obtain s3 where rescued: "eval int_host (Suc 5) (AttemptExpr [ExprStmt (VarRef ''missing'')]
         (Some (''e'', [ExprStmt (IntLiteral 2)])) None) ?g ?s = (Normal (VInt 2), s3)"
      and out3: "stdout s3 = []"
      and print3: "get_var ?g ''print'' s3 = Inr (Builtin ''print'')"
    by (simp add: run_simps eval_attempt_expr_def try_except_def try_finally_def)
  obtain s4 where normal: "eval int_host (Suc 5) (AttemptExpr [ExprStmt (IntLiteral 1)] None None) ?g ?s
      = (Normal (VInt 1), s4)" and out4: "stdout s4 = []"
      and print4: "get_var ?g ''print'' s4 = Inr (Builtin ''print'')"
    by (simp add: run_simps eval_attempt_expr_def try_except_def try_finally_def)
  have fin: "get_var ?g ''print'' s' = Inr (Builtin ''print'') \<Longrightarrow> stdout s' = [] \<Longrightarrow>
      eval_block (eval int_host 5) print_once VNone ?g s'
        = (Normal VNone, s'\<lparr>stdout := [[VStr ''finally'']]\<rparr>)" for s'
    by (simp add: print_once_def eval_nat_numeral call_function_def)
  have six: "(6::nat) = Suc 5" by simp
  from finally_runs_once_after_attempt [OF propagating, of print_once] fin [OF print1 out1]
  have 1: "eval int_host 6 (AttemptExpr [ExprStmt (VarRef ''missing'')] None (Some print_once)) ?g ?s
      = (Stop (Raise (UndefinedVariable ''missing'')), s1\<lparr>stdout := [[VStr ''finally'']]\<rparr>)"
    unfolding six by simp
  from finally_runs_once_after_attempt [OF returning, of print_once] fin [OF print2 out2]
  have 2: "eval int_host 6 (AttemptExpr [ReturnStmt (Some (IntLiteral 1))] None (Some print_once)) ?g ?s
      = (Stop (Raise (ReturnValue (VInt 1))), s2\<lparr>stdout := [[VStr ''finally'']]\<rparr>)"
    unfolding six by simp
  from finally_runs_once_after_attempt [OF rescued, of print_once] fin [OF print3 out3]
  have 3: "eval int_host 6 (AttemptExpr [ExprStmt (VarRef ''missing'')]
         (Some (''e'', [ExprStmt (IntLiteral 2)])) (Some print_once)) ?g ?s
      = (Normal (VInt 2), s3\<lparr>stdout := [[VStr ''finally'']]\<rparr>)"
    unfolding six by simp
  from finally_runs_once_after_attempt [OF normal, of print_once] fin [OF print4 out4]
  have 4: "eval int_host 6 (AttemptExpr [ExprStmt (IntLiteral 1)] None (Some print_once)) ?g ?s
      = (Normal (VInt 1), s4\<lparr>stdout := [[VStr ''finally'']]\<rparr>)"
    unfolding six by simp
  show ?thesis
    unfolding 1 2 3 4 by simp
qed

text \<open>
  Against C6 as stated: a \<^verbatim>\<open>return\<close> in the finally block raises no error, and yet the
  error on its way up is dropped and the enclosing call returns 5; and the same
  \<^verbatim>\<open>return\<close> replaces the result of an attempt that ended normally.
\<close>

theorem return_in_finally_swallows_error:
  "fst (eval int_host 4
         (AttemptExpr [ExprStmt (VarRef ''missing'')] None
            (Some [ReturnStmt (Some (IntLiteral 5))])) outer_scope two_scopes)
     = Stop (Raise (ReturnValue (VInt 5)))
   \<and> fst (run int_host 8 (Module
       [FnDecl ''f'' []
          [ExprStmt (AttemptExpr [ExprStmt (VarRef ''missing'')] None
                       (Some [ReturnStmt (Some (IntLiteral 5))]))],
        ExprStmt (Call (VarRef ''f'') [])])) = Normal (VInt 5)
   \<and> fst (run int_host 8 (Module
       [FnDecl ''g'' []
          [ExprStmt (AttemptExpr [ExprStmt (IntLiteral 1)] None
                       (Some [ReturnStmt (Some (IntLiteral 2))])),
           ExprStmt (IntLiteral 3)],
        ExprStmt (Call (VarRef ''g'') [])])) = Normal (VInt 2)"
  by (simp add: run_simps call_function_def eval_attempt_expr_def try_except_def
      try_finally_def exec_block_def outer_scope_def two_scopes_def)

section \<open>Patterns\<close>

text \<open>
  C4 at its failing input. A result pattern matches every value: the pattern \<^verbatim>\<open>Ok\<close>
  matches an \<^verbatim>\<open>Err\<close> value, the pattern \<^verbatim>\<open>Err\<close> matches an integer, and a match on
  \<^verbatim>\<open>Err(1)\<close> takes the \<^verbatim>\<open>Ok\<close> arm.
\<close>

theorem ok_pattern_matches_err_value:
  "match_pattern H (ResultPattern ''Ok'' inner) (VTuple [VStr ''Err'', v]) env s = (Normal (VBool True), s)
   \<and> match_pattern H (ResultPattern ''Err'' inner) (VInt 5) env s = (Normal (VBool True), s)
   \<and> fst (run int_host 6 (Module [ExprStmt
          (MatchExpr (ResultExpr ''Err'' (IntLiteral 1))
             [(ResultPattern ''Ok'' None, StringLiteral ''ok arm''),
              (ResultPattern ''Err'' None, StringLiteral ''err arm'')])])) = Normal (VStr ''ok arm'')"
  by (simp add: run_simps)

text \<open>
  C5 at its failing input. A list pattern matches no value: a match of \<^verbatim>\<open>[1, 2]\<close> against
  the pattern \<^verbatim>\<open>[a, b]\<close> alone raises the no-match error, and the empty list pattern does
  not match the empty list.
\<close>

theorem list_pattern_never_matches:
  "match_pattern H (ListPattern ps) v env s = (Normal (VBool False), s)
   \<and> fst (run int_host 6 (Module [ExprStmt
          (MatchExpr (ListExpr [IntLiteral 1, IntLiteral 2])
             [(ListPattern [VarPattern ''a'', VarPattern ''b''], StringLiteral ''pair'')])]))
       = Stop (Raise (FloRuntimeError (''No match for value: '' @ py_str int_host (VList [VInt 1, VInt 2]))))
   \<and> fst (run int_host 6 (Module [ExprStmt
          (MatchExpr (ListExpr [])
             [(ListPattern [], StringLiteral ''empty''), (WildcardPattern, StringLiteral ''other'')])]))
       = Normal (VStr ''other'')"
  by (simp add: run_simps)

text \<open>
  C10. \<^verbatim>\<open>Some(e)\<close> evaluates to what \<^verbatim>\<open>e\<close> evaluates to, and \<^verbatim>\<open>None\<close> to \<^verbatim>\<open>None\<close>, so
  \<^verbatim>\<open>Some(nil)\<close> and \<^verbatim>\<open>None\<close> evaluate alike. The pattern \<^verbatim>\<open>None\<close> matches exactly the value
  \<^verbatim>\<open>None\<close> and the pattern \<^verbatim>\<open>Some\<close> exactly the other values; on the value \<^verbatim>\<open>None\<close> a
  match passes over a \<^verbatim>\<open>Some\<close> arm and takes a \<^verbatim>\<open>None\<close> arm.
\<close>

theorem option_values_carry_no_tag:
  "eval H (Suc n) (OptionExpr ''Some'' (Some e)) env s = eval H n e env s
   \<and> eval H (Suc n) (OptionExpr ''None'' opt) env s = (Normal VNone, s)
   \<and> eval H (Suc (Suc n)) (OptionExpr ''Some'' (Some NilLiteral)) env s
       = eval H (Suc (Suc n)) (OptionExpr ''None'' None) env s
   \<and> match_pattern H (OptionPattern ''None'' inner) v env s = (Normal (VBool (v = VNone)), s)
   \<and> match_pattern H (OptionPattern ''Some'' inner) v env s = (Normal (VBool (v \<noteq> VNone)), s)
   \<and> eval_arms H ev ((OptionPattern ''Some'' inner, a) # rest) VNone env s
       = eval_arms H ev rest VNone env s
   \<and> eval_arms H ev ((OptionPattern ''None'' inner, a) # rest) VNone env s = ev a env s"
  by simp

theorem option_values_carry_no_tag_witness:
  "fst (run int_host 6 (Module [ExprStmt
       (MatchExpr (OptionExpr ''Some'' (Some NilLiteral))
          [(OptionPattern ''Some'' None, StringLiteral ''some arm''),
           (OptionPattern ''None'' None, StringLiteral ''none arm'')])])) = Normal (VStr ''none arm'')
   \<and> eval int_host 2 (OptionExpr ''Some'' (Some (IntLiteral 4))) outer_scope two_scopes
       = (Normal (VInt 4), two_scopes)"
  using option_values_carry_no_tag [of int_host 1 "IntLiteral 4" outer_scope two_scopes]
  by (simp add: run_simps)

section \<open>Strands and await\<close>

text \<open>
  The two strands of \<^verbatim>\<open>test_multiple_strands\<close>, awaited in turn from the main task, give
  10 and 20, and the program 30.
\<close>

lemma multiple_strands_sum:
  "fst (run int_host 12 multiple_strands) = Normal (VInt 30)"
  by (simp add: multiple_strands_def run_simps strand_simps int_host_def int_binop_def)

text \<open>
  C9, as the code has it. When the operand of \<^verbatim>\<open>await\<close> evaluates to a value that is
  neither a strand handle nor a coroutine or future, the await expression evaluates to
  that value, in the store the operand left, with any fuel beyond what the operand
  took.
\<close>

theorem await_returns_plain_value:
  "eval H n e env s = (Normal v, s1) \<Longrightarrow> \<not> is_strand v \<Longrightarrow> \<not> iscoroutine_or_future v \<Longrightarrow>
   n < m \<Longrightarrow> eval H m (AwaitExpr e) env s = (Normal v, s1)"
proof -
  assume operand: "eval H n e env s = (Normal v, s1)"
    and no_handle: "\<not> is_strand v" and no_future: "\<not> iscoroutine_or_future v"
    and more: "n < m"
  from no_handle no_future have "await_value (eval H n) v s1 = (Normal v, s1)"
    by (cases v) (simp_all add: await_value_def)
  with operand have step: "eval H (Suc n) (AwaitExpr e) env s = (Normal v, s1)"
    by (simp add: eval_await_expr_def)
  from more have "Suc n \<le> m" by simp
  from eval_fuel_mono [OF this step] show ?thesis by simp
qed

theorem await_returns_plain_value_witness:
  "eval int_host 2 (AwaitExpr (IntLiteral 5)) outer_scope two_scopes = (Normal (VInt 5), two_scopes)
   \<and> eval int_host 9 (AwaitExpr (ListExpr [])) outer_scope two_scopes = (Normal (VList []), two_scopes)"
proof -
  have a: "eval int_host 1 (IntLiteral 5) outer_scope two_scopes = (Normal (VInt 5), two_scopes)"
    by simp
  have b: "eval int_host 1 (ListExpr []) outer_scope two_scopes = (Normal (VList []), two_scopes)"
    by simp
  from await_returns_plain_value [OF a, of 2] await_returns_plain_value [OF b, of 9]
  show ?thesis by simp
qed

text \<open>
  Against C9 as stated: the operand \<^verbatim>\<open>s.task\<close> evaluates to the task of the strand,
  which is not a strand handle, and \<^verbatim>\<open>await s.task\<close> evaluates to 42, the result of the
  strand.
\<close>

theorem await_task_returns_strand_result:
  "fst (run int_host 12 task_of_strand) = Normal (Task 2)
   \<and> is_strand (Task 2) = False
   \<and> fst (run int_host 12 await_task_of_strand) = Normal (VInt 42)"
  by (simp add: task_of_strand_def await_task_of_strand_def strand_42_def run_simps
      strand_simps)

end
